theory Spec2Isabelle
  imports Complex_Main "HOL-Library.Word"
begin

unbundle bit_operations_syntax

section \<open>JavaScript numbers\<close>

text \<open>
  A JavaScript number is an IEEE 754 double: a real number that a double can hold, an
  infinity or \<open>NaN\<close>. The zero of negative sign is not told apart from 0: the divisors
  of the services are lengths and positive constants, and nothing looks at the sign of a
  zero.
\<close>

datatype jsnum = Num real | PosInf | NegInf | NaN

instantiation jsnum :: zero
begin

definition zero_jsnum :: jsnum where
  "zero_jsnum = Num 0"

instance ..

end

text \<open>The exponent of a positive number \<open>x\<close>: the integer \<open>e\<close> with
  \<open>2 ^ e \<le> x < 2 ^ (e + 1)\<close>, found by halving or doubling.\<close>

function log2_up :: "real \<Rightarrow> int \<Rightarrow> int" where
  "log2_up x e = (if 2 \<le> x then log2_up (x / 2) (e + 1) else e)"
  by pat_completeness auto
termination
  by (relation "measure (\<lambda>(x, e). nat \<lfloor>x\<rfloor>)") (auto, linarith)

function log2_down :: "real \<Rightarrow> int \<Rightarrow> int" where
  "log2_down x e = (if 0 < x \<and> x < 1 then log2_down (2 * x) (e - 1) else e)"
  by pat_completeness auto
termination
proof (relation "measure (\<lambda>(x, e). nat \<lceil>1 / x\<rceil>)")
  show "wf (measure (\<lambda>(x, e). nat \<lceil>1 / x\<rceil>))" by simp
next
  fix x :: real and e :: int
  assume "0 < x \<and> x < 1"
  then have y: "1 < 1 / x" by simp
  define y where "y = 1 / x"
  have h: "1 / (2 * x) = y / 2" by (simp add: y_def)
  have "1 < y" using y by (simp add: y_def)
  then have "2 \<le> \<lceil>y\<rceil>" by linarith
  moreover have "y \<le> of_int \<lceil>y\<rceil>" by linarith
  ultimately have "y / 2 \<le> of_int \<lceil>y\<rceil> - 1" by linarith
  then have "\<lceil>y / 2\<rceil> < \<lceil>y\<rceil>" by (simp add: ceiling_less_iff)
  then have "\<lceil>1 / (2 * x)\<rceil> < \<lceil>1 / x\<rceil>" unfolding h y_def .
  moreover have "0 < \<lceil>1 / x\<rceil>" using \<open>2 \<le> \<lceil>y\<rceil>\<close> unfolding y_def by linarith
  ultimately show "((2 * x, e - 1), (x, e)) \<in> measure (\<lambda>(x, e). nat \<lceil>1 / x\<rceil>)"
    by simp
qed

definition ilog2 :: "real \<Rightarrow> int" where
  "ilog2 x = (if 1 \<le> x then log2_up x 0 else log2_down x 0)"

text \<open>Rounding to the nearest integer, a tie going to the even one.\<close>

definition rne :: "real \<Rightarrow> int" where
  "rne y = (let f = \<lfloor>y\<rfloor>; d = y - of_int f in
     if d < 1 / 2 then f else if 1 / 2 < d then f + 1 else if even f then f else f + 1)"

text \<open>The distance between the doubles around \<open>x\<close>: 52 binary digits below the exponent
  of \<open>x\<close>, and \<open>2 ^ -1074\<close> for the subnormal numbers.\<close>

definition quantum :: "real \<Rightarrow> real" where
  "quantum x = 2 powi (max (ilog2 \<bar>x\<bar>) (- 1022) - 52)"

text \<open>The double nearest to a real number (round to nearest, ties to even), an infinity
  when that is \<open>2 ^ 1024\<close> or more in size. Every arithmetic operation of JavaScript returns
  the rounding of the exact result.\<close>

definition fl :: "real \<Rightarrow> jsnum" where
  "fl x = (if x = 0 then Num 0
     else (let q = quantum x; r = of_int (rne (x / q)) * q in
       if 2 powi 1024 \<le> \<bar>r\<bar> then (if 0 < x then PosInf else NegInf) else Num r))"

text \<open>\<open>a + b\<close>, \<open>- a\<close>, \<open>a - b\<close>, \<open>a * b\<close>, \<open>a / b\<close> and \<open>Math.sqrt(a)\<close>\<close>

fun dbl_add :: "jsnum \<Rightarrow> jsnum \<Rightarrow> jsnum" where
  "dbl_add (Num a) (Num b) = fl (a + b)"
| "dbl_add NaN y = NaN"
| "dbl_add x NaN = NaN"
| "dbl_add PosInf NegInf = NaN"
| "dbl_add NegInf PosInf = NaN"
| "dbl_add PosInf y = PosInf"
| "dbl_add x PosInf = PosInf"
| "dbl_add NegInf y = NegInf"
| "dbl_add x NegInf = NegInf"

fun dbl_neg :: "jsnum \<Rightarrow> jsnum" where
  "dbl_neg (Num a) = Num (- a)"
| "dbl_neg PosInf = NegInf"
| "dbl_neg NegInf = PosInf"
| "dbl_neg NaN = NaN"

definition dbl_sub :: "jsnum \<Rightarrow> jsnum \<Rightarrow> jsnum" where
  "dbl_sub a b = dbl_add a (dbl_neg b)"

fun dbl_mul :: "jsnum \<Rightarrow> jsnum \<Rightarrow> jsnum" where
  "dbl_mul (Num a) (Num b) = fl (a * b)"
| "dbl_mul NaN y = NaN"
| "dbl_mul x NaN = NaN"
| "dbl_mul PosInf (Num b) = (if b = 0 then NaN else if 0 < b then PosInf else NegInf)"
| "dbl_mul NegInf (Num b) = (if b = 0 then NaN else if 0 < b then NegInf else PosInf)"
| "dbl_mul (Num a) PosInf = (if a = 0 then NaN else if 0 < a then PosInf else NegInf)"
| "dbl_mul (Num a) NegInf = (if a = 0 then NaN else if 0 < a then NegInf else PosInf)"
| "dbl_mul PosInf PosInf = PosInf"
| "dbl_mul PosInf NegInf = NegInf"
| "dbl_mul NegInf PosInf = NegInf"
| "dbl_mul NegInf NegInf = PosInf"

fun dbl_div :: "jsnum \<Rightarrow> jsnum \<Rightarrow> jsnum" where
  "dbl_div (Num a) (Num b) =
     (if b = 0 then (if a = 0 then NaN else if 0 < a then PosInf else NegInf)
      else fl (a / b))"
| "dbl_div NaN y = NaN"
| "dbl_div x NaN = NaN"
| "dbl_div (Num a) PosInf = Num 0"
| "dbl_div (Num a) NegInf = Num 0"
| "dbl_div PosInf (Num b) = (if 0 \<le> b then PosInf else NegInf)"
| "dbl_div NegInf (Num b) = (if 0 \<le> b then NegInf else PosInf)"
| "dbl_div x y = NaN"

fun dbl_sqrt :: "jsnum \<Rightarrow> jsnum" where
  "dbl_sqrt (Num x) = (if x < 0 then NaN else fl (sqrt x))"
| "dbl_sqrt PosInf = PosInf"
| "dbl_sqrt NegInf = NaN"
| "dbl_sqrt NaN = NaN"

text \<open>\<open>a > b\<close> and \<open>a <= b\<close>: false when one of them is \<open>NaN\<close>.\<close>

fun dbl_gt :: "jsnum \<Rightarrow> jsnum \<Rightarrow> bool" where
  "dbl_gt NaN y = False"
| "dbl_gt x NaN = False"
| "dbl_gt (Num a) (Num b) = (b < a)"
| "dbl_gt PosInf PosInf = False"
| "dbl_gt PosInf y = True"
| "dbl_gt x PosInf = False"
| "dbl_gt NegInf y = False"
| "dbl_gt x NegInf = True"

fun js_le :: "jsnum \<Rightarrow> jsnum \<Rightarrow> bool" where
  "js_le NaN y = False"
| "js_le x NaN = False"
| "js_le NegInf y = True"
| "js_le x PosInf = True"
| "js_le PosInf y = False"
| "js_le x NegInf = False"
| "js_le (Num a) (Num b) = (a \<le> b)"

text \<open>The real numbers that a double can hold, and the JavaScript numbers that are such a
  number, not negative, or the positive infinity: the values that an audio cursor takes.\<close>

definition is_double :: "real \<Rightarrow> bool" where
  "is_double r = (of_int \<lfloor>r / quantum r\<rfloor> * quantum r = r \<and> \<bar>r\<bar> < 2 powi 1024)"

fun good :: "jsnum \<Rightarrow> bool" where
  "good (Num r) = (0 \<le> r \<and> is_double r)"
| "good PosInf = True"
| "good NegInf = False"
| "good NaN = False"

text \<open>\<open>Math.max(a, b)\<close>\<close>

fun Math_max :: "jsnum \<Rightarrow> jsnum \<Rightarrow> jsnum" where
  "Math_max NaN y = NaN"
| "Math_max x NaN = NaN"
| "Math_max PosInf y = PosInf"
| "Math_max x PosInf = PosInf"
| "Math_max NegInf y = y"
| "Math_max x NegInf = x"
| "Math_max (Num a) (Num b) = Num (max a b)"

text \<open>\<open>Math.round\<close>: the nearest integer, a tie going up. The result is exact.\<close>

fun Math_round :: "jsnum \<Rightarrow> jsnum" where
  "Math_round (Num x) = Num (of_int \<lfloor>x + 1 / 2\<rfloor>)"
| "Math_round x = x"

text \<open>\<open>x || d\<close> for a number \<open>x\<close> that may be missing: a missing number, 0 and \<open>NaN\<close>
  are falsy.\<close>

fun js_or :: "jsnum option \<Rightarrow> jsnum \<Rightarrow> jsnum" where
  "js_or None d = d"
| "js_or (Some (Num x)) d = (if x = 0 then d else Num x)"
| "js_or (Some NaN) d = d"
| "js_or (Some x) d = x"

text \<open>
  Wall-clock readings of \<open>Date.now()\<close> are integers (milliseconds, below \<open>2 ^ 53\<close>, where
  the arithmetic of doubles is exact) and are passed to every operation that reads the
  clock; the lengths of arrays are natural numbers.
\<close>

section \<open>JavaScript strings\<close>

text \<open>A string is a list of code units; a \<open>char\<close> stands for a code unit below 256.\<close>

text \<open>The code units below 256 matched by the regular expression \<open>\s\<close> and removed by
  \<open>String.prototype.trim\<close>: TAB, LF, VT, FF, CR, SPACE and NBSP.\<close>

definition isWhiteSpace :: "char \<Rightarrow> bool" where
  "isWhiteSpace c = (of_char c \<in> {9, 10, 11, 12, 13, 32, 160 :: nat})"

text \<open>\<open>s.trim()\<close>\<close>

definition trim :: "string \<Rightarrow> string" where
  "trim s = rev (dropWhile isWhiteSpace (rev (dropWhile isWhiteSpace s)))"

text \<open>\<open>xs.join(' ')\<close>\<close>

fun join :: "string list \<Rightarrow> string" where
  "join [] = []"
| "join [x] = x"
| "join (x # y # ys) = x @ '' '' @ join (y # ys)"

text \<open>\<open>s.split(/\s+/)\<close>: the pieces between maximal runs of white space; a leading or a
  trailing run leaves an empty piece at that end, and the empty string gives one empty piece.
  \<open>cur\<close> holds the piece being read, reversed.\<close>

function split_from :: "string \<Rightarrow> string \<Rightarrow> string list" where
  "split_from cur [] = [rev cur]"
| "split_from cur (c # cs) =
     (if isWhiteSpace c then rev cur # split_from [] (dropWhile isWhiteSpace cs)
      else split_from (c # cur) cs)"
  by pat_completeness auto
termination
  by (relation "measure (\<lambda>(cur, s). length s)")
     (auto simp: less_Suc_eq_le length_dropWhile_le)

definition split_ws :: "string \<Rightarrow> string list" where
  "split_ws s = split_from [] s"

section \<open>Data model (types/index.ts)\<close>

record TranscriptionResult =
  rtext :: string
  timestamp :: int
  confidence :: "jsnum option"
  isFinal :: bool
  latency :: "jsnum option"

record TranscriptionMetrics =
  m_latency :: jsnum
  accuracy :: jsnum
  wordCount :: nat

datatype connection_status = disconnected | connecting | connected | error

section \<open>The store modules (store/verbumModel.ts, store/deepgramModel.ts)\<close>

text \<open>The two store modules declare the same state and, for the actions below, the same
  code; one record and one set of actions model both.\<close>

record store_module =
  s_text :: string
  results :: "TranscriptionResult list"
  metrics :: TranscriptionMetrics
  s_isActive :: bool
  connectionStatus :: connection_status

definition zero_metrics :: TranscriptionMetrics where
  "zero_metrics = \<lparr>m_latency = 0, accuracy = 0, wordCount = 0\<rparr>"

definition initial_store :: store_module where
  "initial_store = \<lparr>s_text = [], results = [], metrics = zero_metrics,
     s_isActive = False, connectionStatus = disconnected\<rparr>"

text \<open>The computed value \<open>finalText\<close>.\<close>

definition finalText :: "store_module \<Rightarrow> string" where
  "finalText state = trim (join (map rtext (filter isFinal (results state))))"

text \<open>The action \<open>addResult\<close>. A non-empty string is truthy.\<close>

definition addResult :: "TranscriptionResult \<Rightarrow> store_module \<Rightarrow> store_module" where
  "addResult payload state =
     (let state1 = state\<lparr>results := results state @ [payload]\<rparr> in
      if isFinal payload then
        state1\<lparr>s_text := trim (join (map rtext (filter isFinal (results state1))))\<rparr>
      else
        (let finalWords = join (map rtext (filter isFinal (results state1))) in
         state1\<lparr>s_text := (if finalWords \<noteq> [] then finalWords @ '' '' @ rtext payload
                              else rtext payload)\<rparr>))"

text \<open>An object that is spread over another one: the keys it carries replace the other's.
  A payload of type \<open>TranscriptionMetrics\<close> carries all three keys.\<close>

record metrics_payload =
  p_latency :: "jsnum option"
  p_accuracy :: "jsnum option"
  p_wordCount :: "nat option"

definition full_payload :: "TranscriptionMetrics \<Rightarrow> metrics_payload" where
  "full_payload m = \<lparr>p_latency = Some (m_latency m), p_accuracy = Some (accuracy m),
     p_wordCount = Some (wordCount m)\<rparr>"

text \<open>\<open>{ ...old, ...payload }\<close>\<close>

definition spread :: "TranscriptionMetrics \<Rightarrow> metrics_payload \<Rightarrow> TranscriptionMetrics" where
  "spread old payload =
     \<lparr>m_latency = (case p_latency payload of Some v \<Rightarrow> v | None \<Rightarrow> m_latency old),
      accuracy = (case p_accuracy payload of Some v \<Rightarrow> v | None \<Rightarrow> accuracy old),
      wordCount = (case p_wordCount payload of Some v \<Rightarrow> v | None \<Rightarrow> wordCount old)\<rparr>"

definition updateMetrics :: "metrics_payload \<Rightarrow> store_module \<Rightarrow> store_module" where
  "updateMetrics payload state = state\<lparr>metrics := spread (metrics state) payload\<rparr>"

definition setActive :: "bool \<Rightarrow> store_module \<Rightarrow> store_module" where
  "setActive payload state = state\<lparr>s_isActive := payload\<rparr>"

definition setConnectionStatus :: "connection_status \<Rightarrow> store_module \<Rightarrow> store_module" where
  "setConnectionStatus payload state = state\<lparr>connectionStatus := payload\<rparr>"

definition reset :: "store_module \<Rightarrow> store_module" where
  "reset state = state\<lparr>s_text := [], results := [], metrics := zero_metrics,
     s_isActive := False, connectionStatus := disconnected\<rparr>"

section \<open>The quotient, the root and the comparison of detectAudioActivity\<close>

text \<open>\<open>a / b\<close> for a divisor that is never \<open>-0\<close> (here always a length).\<close>

definition js_div :: "real \<Rightarrow> real \<Rightarrow> jsnum" where
  "js_div a b = (if b = 0 then (if a = 0 then NaN else if 0 < a then PosInf else NegInf)
                 else Num (a / b))"

fun js_sqrt :: "jsnum \<Rightarrow> jsnum" where
  "js_sqrt (Num x) = (if x < 0 then NaN else Num (sqrt x))"
| "js_sqrt PosInf = PosInf"
| "js_sqrt NegInf = NaN"
| "js_sqrt NaN = NaN"

text \<open>\<open>x > t\<close>: false when \<open>x\<close> is \<open>NaN\<close>.\<close>

fun js_gt :: "jsnum \<Rightarrow> real \<Rightarrow> bool" where
  "js_gt (Num x) t = (t < x)"
| "js_gt PosInf t = True"
| "js_gt NegInf t = False"
| "js_gt NaN t = False"

section \<open>calculateMetrics (the same code in both services)\<close>

definition calculateMetrics :: "TranscriptionResult list \<Rightarrow> TranscriptionMetrics" where
  "calculateMetrics rs =
     (let finalResults = filter isFinal rs in
      if length finalResults = 0 then \<lparr>m_latency = Num 0, accuracy = Num 0, wordCount = 0\<rparr>
      else
        (let latencies = map (\<lambda>r. the (latency r))
               (filter (\<lambda>r. latency r \<noteq> None \<and> dbl_gt (the (latency r)) (Num 0))
                  finalResults);
             avgLatency = (if length latencies > 0
               then dbl_div (foldl (\<lambda>sum lat. dbl_add sum lat) (Num 0) latencies)
                      (Num (real (length latencies)))
               else Num 0);
             confidences = map (\<lambda>r. the (confidence r))
               (filter (\<lambda>r. confidence r \<noteq> None) finalResults);
             avgAccuracy = (if length confidences > 0
               then dbl_mul
                      (dbl_div (foldl (\<lambda>sum conf. dbl_add sum conf) (Num 0) confidences)
                         (Num (real (length confidences))))
                      (Num 100)
               else Num 95);
             count = foldl
               (\<lambda>acc r. acc + length (filter (\<lambda>word. length word > 0) (split_ws (rtext r))))
               0 finalResults
         in \<lparr>m_latency = Math_round avgLatency,
             accuracy = dbl_div (Math_round (dbl_mul avgAccuracy (Num 10))) (Num 10),
             wordCount = count\<rparr>))"

section \<open>detectAudioActivity (the same code in both services)\<close>

datatype js_error = RangeError | TypeError | StartFailure

type_synonym array_buffer = "8 word list"

text \<open>\<open>new Int16Array(buffer)\<close>: throws a \<open>RangeError\<close> when the byte length is odd;
  otherwise the bytes are read two by two, low byte first.\<close>

fun int16_of_bytes :: "array_buffer \<Rightarrow> 16 word list" where
  "int16_of_bytes (lo # hi # bs) = (ucast lo OR push_bit 8 (ucast hi)) # int16_of_bytes bs"
| "int16_of_bytes [b] = []"
| "int16_of_bytes [] = []"

definition new_Int16Array :: "array_buffer \<Rightarrow> js_error + 16 word list" where
  "new_Int16Array buf =
     (if length buf mod 2 \<noteq> 0 then Inl RangeError else Inr (int16_of_bytes buf))"

text \<open>The two loops, with their accumulators.\<close>

fun count_activity :: "array_buffer \<Rightarrow> nat \<Rightarrow> nat" where
  "count_activity [] activity = activity"
| "count_activity (b # bs) activity =
     count_activity bs (if unat b > 10 then activity + 1 else activity)"

fun sum_squares :: "16 word list \<Rightarrow> int \<Rightarrow> int" where
  "sum_squares [] sumSquares = sumSquares"
| "sum_squares (x # xs) sumSquares = sum_squares xs (sumSquares + sint x * sint x)"

text \<open>The body of the \<open>try\<close> block.\<close>

definition detectAudioActivity_try :: "array_buffer \<Rightarrow> js_error + bool" where
  "detectAudioActivity_try audioData =
     (if length audioData = 0 \<or> length audioData mod 2 \<noteq> 0 then
        Inr (js_gt (js_div (real (count_activity audioData 0)) (real (length audioData)))
               (1 / 10))
      else
        (case new_Int16Array audioData of
           Inl e \<Rightarrow> Inl e
         | Inr int16Array \<Rightarrow>
             Inr (js_gt (js_sqrt (js_div (real_of_int (sum_squares int16Array 0))
                                        (real (length int16Array)))) 500)))"

text \<open>The \<open>catch\<close> block.\<close>

definition detectAudioActivity_catch :: "array_buffer \<Rightarrow> bool" where
  "detectAudioActivity_catch audioData = (length audioData > 0)"

definition detectAudioActivity :: "array_buffer \<Rightarrow> bool" where
  "detectAudioActivity audioData =
     (case detectAudioActivity_try audioData of
        Inr r \<Rightarrow> r
      | Inl e \<Rightarrow> detectAudioActivity_catch audioData)"

section \<open>The map of chunk timestamps and cleanupOldTimestamps (the same code in both services)\<close>

text \<open>A JavaScript \<open>Map\<close> from chunk ids to timestamps, as the list of its entries in
  insertion order.\<close>

type_synonym chunk_map = "(nat \<times> int) list"

definition map_set :: "nat \<Rightarrow> int \<Rightarrow> chunk_map \<Rightarrow> chunk_map" where
  "map_set k v m =
     (if k \<in> fst ` set m then map (\<lambda>(k', v'). if k' = k then (k', v) else (k', v')) m
      else m @ [(k, v)])"

definition map_delete :: "nat \<Rightarrow> chunk_map \<Rightarrow> chunk_map" where
  "map_delete k m = filter (\<lambda>(k', v'). k' \<noteq> k) m"

text \<open>The loop over \<open>entries()\<close>: the first argument is what is left to visit, the second
  the map as it is after the deletions made so far.\<close>

fun cleanup_loop :: "int \<Rightarrow> chunk_map \<Rightarrow> chunk_map \<Rightarrow> chunk_map" where
  "cleanup_loop cutoffTime [] m = m"
| "cleanup_loop cutoffTime ((chunkId, ts) # es) m =
     cleanup_loop cutoffTime es (if ts < cutoffTime then map_delete chunkId m else m)"

definition cleanupOldTimestamps :: "int \<Rightarrow> chunk_map \<Rightarrow> chunk_map" where
  "cleanupOldTimestamps now m = (let cutoffTime = now - 10000 in cleanup_loop cutoffTime m m)"

section \<open>Calls on the outside world\<close>

text \<open>Each service keeps, in the model, the list of the calls it has made on its transport,
  on the media stream and on the recorder, oldest first.\<close>

datatype effect =
    ListenLive
  | ConnectionSend "int list"
  | ConnectionFinish
  | SocketOpen
  | SocketEmitAudio "8 word list"
  | SocketEmitStreamEnd
  | SocketDisconnect
  | RecorderStart
  | RecorderStop
  | TrackStop
  | CreateProcessor
  | Deliver TranscriptionResult

datatype handle = Handle

datatype recorder_state = inactive | recording | paused

section \<open>DeepgramService\<close>

record deepgram_service =
  connection :: "handle option"
  d_store :: store_module
  d_mediaRecorder :: "recorder_state option"
  d_stream :: "handle option"
  d_isActive :: bool
  connectionStartTime :: int
  d_audioActivityDetected :: bool
  d_currentUtteranceStart :: int
  d_chunkCounter :: nat
  d_audioChunkTimestamps :: chunk_map
  audioCursor :: jsnum
  sessionStartTime :: int
  audioStreamStartTime :: int
  d_effects :: "effect list"

definition d_call :: "effect \<Rightarrow> deepgram_service \<Rightarrow> deepgram_service" where
  "d_call e s = s\<lparr>d_effects := d_effects s @ [e]\<rparr>"

definition d_act :: "(store_module \<Rightarrow> store_module) \<Rightarrow> deepgram_service \<Rightarrow> deepgram_service" where
  "d_act a s = s\<lparr>d_store := a (d_store s)\<rparr>"

text \<open>The event of a transcript. \<open>DeepgramResponse\<close> declares \<open>start\<close>, \<open>duration\<close> and
  \<open>is_final\<close> on the event, and \<open>transcript\<close> and \<open>confidence\<close> on each alternative.
  \<open>handleTranscriptResult\<close> takes its argument as \<open>any\<close> and reads \<open>start\<close> and \<open>duration\<close>
  off the first alternative \<open>data.channel?.alternatives?.[0]\<close>: the fields \<open>a_start\<close> and
  \<open>a_duration\<close>, which an event of the declared type does not have.\<close>

record dg_alternative =
  transcript :: string
  a_confidence :: "jsnum option"
  a_start :: "jsnum option"
  a_duration :: "jsnum option"

record dg_data =
  ev_start :: jsnum
  ev_duration :: jsnum
  is_final :: bool
  alternative :: "dg_alternative option"

text \<open>\<open>stopTranscription\<close>. The calls inside its \<open>try\<close> block do not throw in the model.\<close>

definition d_stopTranscription :: "deepgram_service \<Rightarrow> deepgram_service" where
  "d_stopTranscription s =
     (if \<not> d_isActive s then s
      else
        (let s1 = d_act (setActive False) (s\<lparr>d_isActive := False\<rparr>);
             s2 = (case d_mediaRecorder s1 of
                     Some st \<Rightarrow> if st \<noteq> inactive
                                  then (d_call RecorderStop s1)\<lparr>d_mediaRecorder := None\<rparr> else s1
                   | None \<Rightarrow> s1);
             s3 = (case d_stream s2 of
                     Some h \<Rightarrow> (d_call TrackStop s2)\<lparr>d_stream := None\<rparr>
                   | None \<Rightarrow> s2);
             s4 = (case connection s3 of
                     Some c \<Rightarrow> (d_call ConnectionFinish s3)\<lparr>connection := None\<rparr>
                   | None \<Rightarrow> s3);
             s5 = d_act (setConnectionStatus disconnected) s4;
             currentResults = results (d_store s5)
         in if length currentResults > 0
            then d_act (updateMetrics (full_payload (calculateMetrics currentResults))) s5
            else s5))"

text \<open>\<open>detectAudioActivityFromFloat32\<close>; the samples of a \<open>Float32Array\<close> are finite
  numbers.\<close>

definition detectAudioActivityFromFloat32 :: "real list \<Rightarrow> bool" where
  "detectAudioActivityFromFloat32 float32Array =
     (let threshold = fl (1 / 100);
          sumSquares = foldl (\<lambda>acc x. dbl_add acc (dbl_mul (Num x) (Num x))) (Num 0)
                         float32Array;
          rms = dbl_sqrt (dbl_div sumSquares (Num (real (length float32Array))))
      in dbl_gt rms threshold)"

text \<open>\<open>convertFloat32ToPCM16\<close>: the product of a sample by 32768 is exact; storing into
  an \<open>Int16Array\<close> drops the fraction of a value that is already between -32768 and 32767.\<close>

definition truncate :: "real \<Rightarrow> int" where
  "truncate x = (if 0 \<le> x then \<lfloor>x\<rfloor> else \<lceil>x\<rceil>)"

definition convertFloat32ToPCM16 :: "real list \<Rightarrow> int list" where
  "convertFloat32ToPCM16 float32Array =
     map (\<lambda>x. truncate (max (-32768) (min 32767 (x * 32768)))) float32Array"

text \<open>\<open>startAudioStreaming\<close>; \<open>audio_fails\<close> says whether creating the audio context and
  the processor throws. The processor it creates calls \<open>onaudioprocess\<close> below for each
  buffer of samples.\<close>

definition d_startAudioStreaming ::
    "int \<Rightarrow> handle \<Rightarrow> bool \<Rightarrow> deepgram_service \<Rightarrow> js_error option \<times> deepgram_service" where
  "d_startAudioStreaming now mediaStream audio_fails s =
     (let s1 = s\<lparr>d_stream := Some mediaStream, d_chunkCounter := 0,
                  d_audioChunkTimestamps := [], d_currentUtteranceStart := 0,
                  d_audioActivityDetected := False, audioCursor := 0,
                  sessionStartTime := now, audioStreamStartTime := now\<rparr>
      in if audio_fails then (Some StartFailure, s1) else (None, d_call CreateProcessor s1))"

text \<open>\<open>startTranscription\<close>; \<open>live_fails\<close> says whether \<open>client.listen.live\<close> throws.
  The error, when there is one, is thrown again after the \<open>catch\<close> block has run.\<close>

definition d_catch :: "js_error \<Rightarrow> deepgram_service \<Rightarrow> js_error option \<times> deepgram_service" where
  "d_catch e s =
     (Some e, d_act (setActive False) (d_act (setConnectionStatus error) (s\<lparr>d_isActive := False\<rparr>)))"

definition d_startTranscription ::
    "int \<Rightarrow> handle \<Rightarrow> bool \<Rightarrow> bool \<Rightarrow> deepgram_service \<Rightarrow> js_error option \<times> deepgram_service" where
  "d_startTranscription now mediaStream live_fails audio_fails s =
     (let s0 = (if d_isActive s then d_stopTranscription s else s);
          s1 = (d_act reset s0)\<lparr>connectionStartTime := now, d_isActive := True\<rparr>;
          s2 = d_act (setActive True) (d_act (setConnectionStatus connecting) s1)
      in if live_fails then d_catch StartFailure s2
         else
           (let s3 = (d_call ListenLive s2)\<lparr>connection := Some Handle\<rparr>;
                s4 = d_act (setConnectionStatus connected) s3
            in case d_startAudioStreaming now mediaStream audio_fails s4 of
                 (Some e, s5) \<Rightarrow> d_catch e s5
               | (None, s5) \<Rightarrow> (None, s5)))"

text \<open>The listener of the processor, \<open>onaudioprocess\<close>, for one buffer of samples.\<close>

definition onaudioprocess :: "int \<Rightarrow> real list \<Rightarrow> deepgram_service \<Rightarrow> deepgram_service" where
  "onaudioprocess now inputBuffer s =
     (if connection s = None \<or> \<not> d_isActive s then s
      else
        (let chunkId = d_chunkCounter s;
             chunkTimestamp = now;
             s1 = s\<lparr>d_chunkCounter := d_chunkCounter s + 1,
                     d_audioChunkTimestamps :=
                       map_set chunkId chunkTimestamp (d_audioChunkTimestamps s)\<rparr>;
             hasActivity = detectAudioActivityFromFloat32 inputBuffer;
             s2 = (if \<not> d_audioActivityDetected s1 \<and> hasActivity
                   then s1\<lparr>d_currentUtteranceStart := chunkTimestamp,
                            d_audioActivityDetected := True\<rparr>
                   else s1);
             s3 = d_call (ConnectionSend (convertFloat32ToPCM16 inputBuffer)) s2;
             chunkDurationSeconds = dbl_div (Num (real (length inputBuffer))) (Num 16000);
             s4 = s3\<lparr>audioCursor := dbl_add (audioCursor s3) chunkDurationSeconds\<rparr>
         in if chunkId mod 50 = 0
            then s4\<lparr>d_audioChunkTimestamps :=
                       cleanupOldTimestamps now (d_audioChunkTimestamps s4)\<rparr>
            else s4))"

text \<open>\<open>handleTranscriptResult\<close>: first the latency it computes, then the whole handler.\<close>

definition d_calculatedLatency :: "int \<Rightarrow> bool \<Rightarrow> dg_alternative \<Rightarrow> deepgram_service \<Rightarrow> jsnum" where
  "d_calculatedLatency resultTimestamp final alt s =
     (if \<not> final \<and> a_start alt \<noteq> None \<and> a_duration alt \<noteq> None then
        (let audioCursorX = audioCursor s;
             transcriptCursorY = dbl_add (the (a_start alt)) (the (a_duration alt))
         in Math_max (Num 0) (dbl_mul (dbl_sub audioCursorX transcriptCursorY) (Num 1000)))
      else if final then
        (if d_currentUtteranceStart s > 0
         then Num (of_int (resultTimestamp - d_currentUtteranceStart s)) else Num 0)
      else Num 0)"

text \<open>\<open>transcript.confidence || 0.95\<close>\<close>

definition d_confidence :: "dg_alternative \<Rightarrow> jsnum" where
  "d_confidence alt = js_or (a_confidence alt) (fl (95 / 100))"

definition d_result :: "int \<Rightarrow> bool \<Rightarrow> dg_alternative \<Rightarrow> deepgram_service \<Rightarrow> TranscriptionResult" where
  "d_result resultTimestamp final alt s =
     \<lparr>rtext = trim (transcript alt), timestamp = resultTimestamp,
      confidence = Some (d_confidence alt), isFinal = final,
      latency = Some (Math_max (Num 0) (d_calculatedLatency resultTimestamp final alt s))\<rparr>"

definition handleTranscriptResult :: "int \<Rightarrow> dg_data \<Rightarrow> deepgram_service \<Rightarrow> deepgram_service" where
  "handleTranscriptResult now data s =
     (case alternative data of
        None \<Rightarrow> s
      | Some alt \<Rightarrow>
          if transcript alt = [] \<or> trim (transcript alt) = [] then s
          else
            (let resultTimestamp = now;
                 res = d_result resultTimestamp (is_final data) alt s;
                 s1 = (if \<not> (\<not> is_final data \<and> a_start alt \<noteq> None \<and> a_duration alt \<noteq> None)
                          \<and> is_final data
                       then s\<lparr>d_audioActivityDetected := False, d_currentUtteranceStart := 0\<rparr>
                       else s);
                 s2 = d_act (addResult res) s1
             in if is_final data
                then d_act (updateMetrics
                       (full_payload (calculateMetrics (results (d_store s2))))) s2
                else s2))"

text \<open>The listeners that \<open>setupEventHandlers\<close> registers for \<open>Open\<close>, \<open>Error\<close> and
  \<open>Close\<close>.\<close>

definition d_on_open :: "deepgram_service \<Rightarrow> deepgram_service" where
  "d_on_open s = d_act (setConnectionStatus connected) s"

definition d_on_error :: "deepgram_service \<Rightarrow> deepgram_service" where
  "d_on_error s = d_act (setConnectionStatus error) s"

definition d_on_close :: "deepgram_service \<Rightarrow> deepgram_service" where
  "d_on_close s =
     d_act (setActive False) ((d_act (setConnectionStatus disconnected) s)\<lparr>d_isActive := False\<rparr>)"

text \<open>What can happen to a Deepgram service after it has been started, short of another
  start: a buffer of samples, a transcript, the \<open>Open\<close>, \<open>Error\<close> and \<open>Close\<close> events,
  a call of \<open>stopTranscription\<close>.\<close>

datatype d_event =
    AudioProcess int "real list"
  | Transcript int dg_data
  | Opened
  | Failed
  | Closed
  | StopCall

fun d_event_step :: "d_event \<Rightarrow> deepgram_service \<Rightarrow> deepgram_service" where
  "d_event_step (AudioProcess now inputBuffer) s = onaudioprocess now inputBuffer s"
| "d_event_step (Transcript now data) s = handleTranscriptResult now data s"
| "d_event_step Opened s = d_on_open s"
| "d_event_step Failed s = d_on_error s"
| "d_event_step Closed s = d_on_close s"
| "d_event_step StopCall s = d_stopTranscription s"

definition d_run :: "d_event list \<Rightarrow> deepgram_service \<Rightarrow> deepgram_service" where
  "d_run evs s = fold d_event_step evs s"

text \<open>The durations, in seconds, of the buffers that a started session accepts: those that
  come before the first \<open>Close\<close> event or call of \<open>stopTranscription\<close>.\<close>

fun advances :: "d_event list \<Rightarrow> jsnum list" where
  "advances [] = []"
| "advances (AudioProcess now inputBuffer # evs) =
     dbl_div (Num (real (length inputBuffer))) (Num 16000) # advances evs"
| "advances (Closed # evs) = []"
| "advances (StopCall # evs) = []"
| "advances (e # evs) = advances evs"

definition streaming :: "deepgram_service \<Rightarrow> bool" where
  "streaming s = (connection s \<noteq> None \<and> d_isActive s)"

section \<open>VerbumService (services/verbumService.ts)\<close>

text \<open>The subscriber of results: the caller's callback, or the store's \<open>addResult\<close> when
  the caller gave none.\<close>

datatype sink = CallerCallback | StoreAddResult

text \<open>The socket, when there is one, with its \<open>connected\<close> flag.\<close>

record verbum_service =
  socket :: "bool option"
  v_store :: store_module
  v_isActive :: bool
  v_isConnecting :: bool
  onTranscription :: "sink option"
  startTime :: int
  v_results :: "TranscriptionResult list"
  v_mediaRecorder :: "recorder_state option"
  v_stream :: "handle option"
  v_audioChunkTimestamps :: chunk_map
  v_currentUtteranceStart :: int
  v_audioActivityDetected :: bool
  v_chunkCounter :: nat
  v_effects :: "effect list"

definition v_call :: "effect \<Rightarrow> verbum_service \<Rightarrow> verbum_service" where
  "v_call e s = s\<lparr>v_effects := v_effects s @ [e]\<rparr>"

definition v_act :: "(store_module \<Rightarrow> store_module) \<Rightarrow> verbum_service \<Rightarrow> verbum_service" where
  "v_act a s = s\<lparr>v_store := a (v_store s)\<rparr>"

text \<open>\<open>startTranscription\<close>, up to the point where it waits for the socket that
  \<open>connectToVerbum\<close> has just opened: the guard, the fields, the store, the call of \<open>io\<close>.
  \<open>callback_given\<close> says whether the caller passed \<open>onTranscription\<close>.\<close>

definition v_startTranscription :: "int \<Rightarrow> bool \<Rightarrow> verbum_service \<Rightarrow> verbum_service" where
  "v_startTranscription now callback_given s =
     (if v_isActive s \<or> v_isConnecting s then s
      else
        (let s1 = s\<lparr>onTranscription := Some (if callback_given then CallerCallback
                                                else StoreAddResult),
                     startTime := now, v_isActive := True, v_isConnecting := True,
                     v_results := []\<rparr>;
             s2 = v_act (setConnectionStatus connecting) (v_act (setActive True) s1)
         in (v_call SocketOpen s2)\<lparr>socket := Some False\<rparr>))"

text \<open>The socket's \<open>connect\<close> and \<open>disconnect\<close> listeners.\<close>

definition v_on_connect :: "verbum_service \<Rightarrow> verbum_service" where
  "v_on_connect s =
     v_act (setActive True) (v_act (setConnectionStatus connected)
       (s\<lparr>socket := map_option (\<lambda>c. True) (socket s),
          v_isActive := True, v_isConnecting := False\<rparr>))"

definition v_on_disconnect :: "verbum_service \<Rightarrow> verbum_service" where
  "v_on_disconnect s =
     v_act (setActive False) (v_act (setConnectionStatus disconnected)
       (s\<lparr>socket := map_option (\<lambda>c. False) (socket s),
          v_isActive := False, v_isConnecting := False\<rparr>))"

text \<open>Calls of \<open>startTranscription\<close> and \<open>connect\<close> events of the socket, in any order.\<close>

datatype v_event = StartCall int bool | ConnectEvent

fun v_event_step :: "v_event \<Rightarrow> verbum_service \<Rightarrow> verbum_service" where
  "v_event_step (StartCall now callback_given) s = v_startTranscription now callback_given s"
| "v_event_step ConnectEvent s = v_on_connect s"

text \<open>\<open>startAudioStreaming\<close>, which \<open>startTranscription\<close> calls once the socket is
  connected; \<open>recorder_fails\<close> says whether creating or starting the recorder throws.\<close>

definition v_startAudioStreaming ::
    "handle \<Rightarrow> bool \<Rightarrow> verbum_service \<Rightarrow> js_error option \<times> verbum_service" where
  "v_startAudioStreaming mediaStream recorder_fails s =
     (let s1 = s\<lparr>v_stream := Some mediaStream, v_chunkCounter := 0,
                  v_audioChunkTimestamps := [], v_currentUtteranceStart := 0,
                  v_audioActivityDetected := False\<rparr>
      in if recorder_fails then (Some StartFailure, s1)
         else (None, (v_call RecorderStart s1)\<lparr>v_mediaRecorder := Some recording\<rparr>))"

text \<open>The recorder's \<open>ondataavailable\<close> listener, for a chunk of \<open>dataSize\<close> bytes: what it does
  at once, and what it does when the bytes of the chunk have been read
  (\<open>event.data.arrayBuffer().then\<close>).\<close>

definition v_ondataavailable :: "int \<Rightarrow> nat \<Rightarrow> verbum_service \<Rightarrow> verbum_service" where
  "v_ondataavailable now dataSize s =
     (if dataSize > 0 then
        (let chunkId = v_chunkCounter s;
             chunkTimestamp = now;
             s1 = s\<lparr>v_chunkCounter := v_chunkCounter s + 1,
                     v_audioChunkTimestamps :=
                       map_set chunkId chunkTimestamp (v_audioChunkTimestamps s)\<rparr>
         in if chunkId mod 20 = 0
            then s1\<lparr>v_audioChunkTimestamps :=
                       cleanupOldTimestamps now (v_audioChunkTimestamps s1)\<rparr>
            else s1)
      else s)"

definition v_on_buffer :: "int \<Rightarrow> array_buffer \<Rightarrow> verbum_service \<Rightarrow> verbum_service" where
  "v_on_buffer chunkTimestamp buffer s =
     (let hasActivity = (length buffer > 100 \<or> detectAudioActivity buffer);
          s1 = (if \<not> v_audioActivityDetected s \<and> hasActivity
                then s\<lparr>v_currentUtteranceStart := chunkTimestamp,
                        v_audioActivityDetected := True\<rparr>
                else s)
      in if socket s1 = Some True \<and> v_isActive s1 then v_call (SocketEmitAudio buffer) s1
         else s1)"

text \<open>One chunk: the listener, then the reading of its bytes.\<close>

definition v_chunk :: "int \<Rightarrow> array_buffer \<Rightarrow> verbum_service \<Rightarrow> verbum_service" where
  "v_chunk now buffer s = v_on_buffer now buffer (v_ondataavailable now (length buffer) s)"

text \<open>\<open>stopTranscription\<close>\<close>

definition v_stopTranscription :: "verbum_service \<Rightarrow> verbum_service" where
  "v_stopTranscription s =
     (let s1 = s\<lparr>v_isActive := False, v_isConnecting := False\<rparr>;
          s2 = (if socket s1 = Some True then v_call SocketEmitStreamEnd s1 else s1);
          s3 = (case v_mediaRecorder s2 of
                  Some st \<Rightarrow> if st \<noteq> inactive
                               then (v_call RecorderStop s2)\<lparr>v_mediaRecorder := None\<rparr> else s2
                | None \<Rightarrow> s2);
          s4 = (case v_stream s3 of
                  Some h \<Rightarrow> (v_call TrackStop s3)\<lparr>v_stream := None\<rparr>
                | None \<Rightarrow> s3);
          s5 = (case socket s4 of
                  Some c \<Rightarrow> (v_call SocketDisconnect s4)\<lparr>socket := None\<rparr>
                | None \<Rightarrow> s4);
          s6 = (if length (v_results s5) > 0
                then v_act (updateMetrics (full_payload (calculateMetrics (v_results s5)))) s5
                else s5)
      in v_act (setActive False) (v_act (setConnectionStatus disconnected) s6))"

text \<open>The event as \<open>handleSpeechResult\<close> reads it. \<open>confidence\<close> is a number or a word.\<close>

datatype speech_status = recognized | recognizing

datatype speech_confidence = ConfNumber jsnum | ConfWord string

record VerbumSpeechResult =
  e_text :: string
  e_confidence :: "speech_confidence option"
  e_status :: speech_status
  e_duration :: "jsnum option"
  e_offset :: "jsnum option"

text \<open>The latency that \<open>handleSpeechResult\<close> computes. \<open>sort((a, b) => b - a)\<close> puts the
  most recent timestamp first.\<close>

definition v_calculatedLatency :: "int \<Rightarrow> verbum_service \<Rightarrow> int" where
  "v_calculatedLatency resultTimestamp s =
     (if v_currentUtteranceStart s > 0 then resultTimestamp - v_currentUtteranceStart s
      else if length (v_audioChunkTimestamps s) > 0 then
        (let recentTimestamps =
               rev (sort (filter (\<lambda>ts. ts > resultTimestamp - 3000)
                            (map snd (v_audioChunkTimestamps s))))
         in case recentTimestamps of
              [] \<Rightarrow> 0
            | t # ts \<Rightarrow> resultTimestamp - t)
      else 0)"

definition v_confidence :: "speech_confidence option \<Rightarrow> jsnum" where
  "v_confidence c =
     (case c of
        Some (ConfNumber n) \<Rightarrow> n
      | Some (ConfWord w) \<Rightarrow>
          if w = ''high'' then fl (9 / 10) else if w = ''medium'' then fl (7 / 10)
          else if w = ''low'' then fl (5 / 10) else fl (8 / 10)
      | None \<Rightarrow> fl (8 / 10))"

definition v_result :: "int \<Rightarrow> VerbumSpeechResult \<Rightarrow> verbum_service \<Rightarrow> TranscriptionResult" where
  "v_result resultTimestamp data s =
     \<lparr>rtext = trim (e_text data), timestamp = resultTimestamp,
      confidence = Some (v_confidence (e_confidence data)),
      isFinal = (e_status data = recognized),
      latency = Some (Math_max (Num 0)
                  (Num (of_int (v_calculatedLatency resultTimestamp s))))\<rparr>"

text \<open>\<open>handleSpeechResult\<close>. Calling a subscriber that was never set throws a
  \<open>TypeError\<close>, after the result has been pushed.\<close>

definition handleSpeechResult ::
    "int \<Rightarrow> VerbumSpeechResult \<Rightarrow> verbum_service \<Rightarrow> js_error option \<times> verbum_service" where
  "handleSpeechResult now data s =
     (if e_text data = [] \<or> trim (e_text data) = [] then (None, s)
      else
        (let resultTimestamp = now;
             res = v_result resultTimestamp data s;
             s1 = (if e_status data = recognized
                   then s\<lparr>v_audioActivityDetected := False, v_currentUtteranceStart := 0\<rparr>
                   else s);
             s2 = s1\<lparr>v_results := v_results s1 @ [res]\<rparr>
         in case onTranscription s2 of
              None \<Rightarrow> (Some TypeError, s2)
            | Some k \<Rightarrow>
                (let s3 = (case k of
                             StoreAddResult \<Rightarrow> v_act (addResult res) s2
                           | CallerCallback \<Rightarrow> v_call (Deliver res) s2)
                 in if isFinal res
                    then (None, v_act (updateMetrics
                            (full_payload (calculateMetrics (results (v_store s3))))) s3)
                    else (None, s3))))"

text \<open>The Web Speech fallback (\<open>fallbackToWebSpeech\<close>): the listener \<open>recognition.onresult\<close>.
  An event holds the results of the recognition and the index of the first one that has
  changed; the listener reads the first alternative of each result from that index on.
  \<open>clock i\<close> is the reading of \<open>Date.now()\<close> in the turn of the loop for index \<open>i\<close>; the
  subscriber is the one that \<open>startTranscription\<close> hands over: the caller's callback, or
  the store's \<open>addResult\<close>.\<close>

record speech_recognition_result =
  w_transcript :: string
  w_confidence :: jsnum
  w_isFinal :: bool

record SpeechRecognitionEvent =
  resultIndex :: nat
  w_results :: "speech_recognition_result list"

text \<open>The \<open>catch\<close> block of \<open>startTranscription\<close>, which runs when the connection or the
  start of the recorder fails, before the Web Speech fallback is set up.\<close>

definition v_catch :: "verbum_service \<Rightarrow> verbum_service" where
  "v_catch s = v_act (setConnectionStatus error) (s\<lparr>v_isConnecting := False\<rparr>)"

definition web_result :: "int \<Rightarrow> speech_recognition_result \<Rightarrow> TranscriptionResult" where
  "web_result now r =
     \<lparr>rtext = w_transcript r, timestamp = now,
      confidence = Some (js_or (Some (w_confidence r)) (fl (85 / 100))),
      isFinal = w_isFinal r, latency = None\<rparr>"

fun web_loop ::
    "(nat \<Rightarrow> int) \<Rightarrow> sink \<Rightarrow> nat \<Rightarrow> speech_recognition_result list \<Rightarrow> verbum_service
       \<Rightarrow> verbum_service" where
  "web_loop clock k i [] s = s"
| "web_loop clock k i (r # rs) s =
     (let res = web_result (clock i) r;
          s1 = s\<lparr>v_results := v_results s @ [res]\<rparr>;
          s2 = (if trim (w_transcript r) \<noteq> []
                then (case k of
                        StoreAddResult \<Rightarrow> v_act (addResult res) s1
                      | CallerCallback \<Rightarrow> v_call (Deliver res) s1)
                else s1)
      in web_loop clock k (i + 1) rs s2)"

definition web_onresult ::
    "(nat \<Rightarrow> int) \<Rightarrow> sink \<Rightarrow> SpeechRecognitionEvent \<Rightarrow> verbum_service \<Rightarrow> verbum_service" where
  "web_onresult clock k ev s =
     web_loop clock k (resultIndex ev) (drop (resultIndex ev) (w_results ev)) s"

section \<open>Notions of the specification\<close>

text \<open>The mean of a list of real numbers, and a real number rounded to one decimal
  place: the nearest multiple of one tenth.\<close>

definition mean :: "real list \<Rightarrow> real" where
  "mean xs = sum_list xs / real (length xs)"

definition round1 :: "real \<Rightarrow> real" where
  "round1 x = of_int \<lfloor>x * 10 + 1 / 2\<rfloor> / 10"

text \<open>The sum and the mean of a list of numbers as JavaScript computes them: the sum is
  accumulated from 0 in the order of the list, and every addition and the division are
  rounded.\<close>

definition dbl_sum :: "jsnum list \<Rightarrow> jsnum" where
  "dbl_sum xs = foldl dbl_add (Num 0) xs"

definition dbl_mean :: "jsnum list \<Rightarrow> jsnum" where
  "dbl_mean xs = dbl_div (dbl_sum xs) (Num (real (length xs)))"

text \<open>The latency fields that are present and positive, and the confidence fields that are
  present, in the order of the results.\<close>

fun positive_latencies :: "TranscriptionResult list \<Rightarrow> jsnum list" where
  "positive_latencies [] = []"
| "positive_latencies (r # rs) =
     (case latency r of
        Some l \<Rightarrow> if dbl_gt l (Num 0) then l # positive_latencies rs else positive_latencies rs
      | None \<Rightarrow> positive_latencies rs)"

fun present_confidences :: "TranscriptionResult list \<Rightarrow> jsnum list" where
  "present_confidences [] = []"
| "present_confidences (r # rs) =
     (case confidence r of
        Some c \<Rightarrow> c # present_confidences rs
      | None \<Rightarrow> present_confidences rs)"

text \<open>The number of tokens of a text: the maximal runs of characters that are not white
  space. \<open>inside\<close> says whether the character before was part of a token.\<close>

fun count_tokens :: "bool \<Rightarrow> string \<Rightarrow> nat" where
  "count_tokens inside [] = 0"
| "count_tokens inside (c # cs) =
     (if isWhiteSpace c then count_tokens False cs
      else (if inside then 0 else 1) + count_tokens True cs)"

text \<open>A buffer read as 16-bit signed samples, the root mean square of samples, and the
  fraction of the bytes of a buffer that are above 10.\<close>

definition samples16 :: "array_buffer \<Rightarrow> int list" where
  "samples16 b = map sint (int16_of_bytes b)"

definition rms :: "int list \<Rightarrow> real" where
  "rms xs = sqrt (real_of_int (sum_list (map (\<lambda>x. x * x) xs)) / real (length xs))"

definition active_fraction :: "array_buffer \<Rightarrow> real" where
  "active_fraction b = real (length (filter (\<lambda>x. 10 < unat x) b)) / real (length b)"

text \<open>The latency of the specification, in milliseconds, for an audio cursor and the offset
  and duration of an event, in seconds, computed in JavaScript's arithmetic.\<close>

definition spec_latency :: "jsnum \<Rightarrow> jsnum \<Rightarrow> jsnum \<Rightarrow> jsnum" where
  "spec_latency cursor offsetSeconds durationSeconds =
     Math_max (Num 0)
       (dbl_mul (dbl_sub cursor (dbl_add offsetSeconds durationSeconds)) (Num 1000))"

text \<open>\<open>VerbumService\<close> keeps no audio cursor. The audio it has handed over is
  \<open>chunkCounter\<close> chunks of 20 ms, the time slice of \<open>mediaRecorder.start(20)\<close>.\<close>

definition v_audio_seconds :: "verbum_service \<Rightarrow> jsnum" where
  "v_audio_seconds s = dbl_div (dbl_mul (Num (real (v_chunkCounter s))) (Num 20)) (Num 1000)"

text \<open>The chunk timestamps of the last 3000 ms.\<close>

definition recent_chunks :: "int \<Rightarrow> verbum_service \<Rightarrow> int set" where
  "recent_chunks now s = {ts \<in> snd ` set (v_audioChunkTimestamps s). now - 3000 < ts}"

text \<open>The transport connections that a Deepgram service has opened and not finished.\<close>

definition open_connections :: "effect list \<Rightarrow> int" where
  "open_connections es = int (count_list es ListenLive) - int (count_list es ConnectionFinish)"

section \<open>Doubles of the examples\<close>

text \<open>Each constant \<open>dbl_d\<close> is the double that JavaScript prints as \<open>d\<close>, given as an
  integer of at most 53 binary digits divided by a power of two.\<close>

definition dbl_0_064 :: real where
  "dbl_0_064 = 4611686018427388 / 2 ^ 56"

definition dbl_0_128 :: real where
  "dbl_0_128 = 4611686018427388 / 2 ^ 55"

definition dbl_0_192 :: real where
  "dbl_0_192 = 6917529027641082 / 2 ^ 55"

definition dbl_0_256 :: real where
  "dbl_0_256 = 4611686018427388 / 2 ^ 54"

definition dbl_0_32 :: real where
  "dbl_0_32 = 5764607523034235 / 2 ^ 54"

definition dbl_0_384 :: real where
  "dbl_0_384 = 6917529027641082 / 2 ^ 54"

definition dbl_0_448 :: real where
  "dbl_0_448 = 8070450532247929 / 2 ^ 54"

definition dbl_0_512 :: real where
  "dbl_0_512 = 4611686018427388 / 2 ^ 53"

definition dbl_0_5760000000000001 :: real where
  "dbl_0_5760000000000001 = 5188146770730812 / 2 ^ 53"

definition dbl_0_02 :: real where
  "dbl_0_02 = 5764607523034235 / 2 ^ 58"

definition dbl_0_03 :: real where
  "dbl_0_03 = 8646911284551352 / 2 ^ 58"

definition dbl_0_05 :: real where
  "dbl_0_05 = 7205759403792794 / 2 ^ 57"

definition dbl_0_078 :: real where
  "dbl_0_078 = 5620492334958379 / 2 ^ 56"

definition dbl_0_14200000000000002 :: real where
  "dbl_0_14200000000000002 = 5116089176692884 / 2 ^ 55"

definition dbl_142_00000000000003 :: real where
  "dbl_142_00000000000003 = 4996180836614145 / 2 ^ 45"

definition dbl_0_1 :: real where
  "dbl_0_1 = 7205759403792794 / 2 ^ 56"

definition dbl_5_03 :: real where
  "dbl_5_03 = 5663276531418399 / 2 ^ 50"

definition dbl_m4_930000000000001 :: real where
  "dbl_m4_930000000000001 = - 5550686540734137 / 2 ^ 50"

definition dbl_m4930_000000000001 :: real where
  "dbl_m4930_000000000001 = - 5420592324935681 / 2 ^ 40"

definition dbl_0_9 :: real where
  "dbl_0_9 = 8106479329266893 / 2 ^ 53"

definition dbl_0_8 :: real where
  "dbl_0_8 = 7205759403792794 / 2 ^ 53"

definition dbl_1_8 :: real where
  "dbl_1_8 = 8106479329266893 / 2 ^ 52"

definition dbl_2_7 :: real where
  "dbl_2_7 = 6079859496950170 / 2 ^ 51"

definition dbl_3_5 :: real where
  "dbl_3_5 = 7881299347898368 / 2 ^ 51"

definition dbl_4_3 :: real where
  "dbl_4_3 = 4841369599423283 / 2 ^ 50"

definition dbl_5_1 :: real where
  "dbl_5_1 = 5742089524897382 / 2 ^ 50"

definition dbl_5_8999999999999995 :: real where
  "dbl_5_8999999999999995 = 6642809450371481 / 2 ^ 50"

definition dbl_6_699999999999999 :: real where
  "dbl_6_699999999999999 = 7543529375845580 / 2 ^ 50"

definition dbl_0_8374999999999999 :: real where
  "dbl_0_8374999999999999 = 7543529375845580 / 2 ^ 53"

definition dbl_83_74999999999999 :: real where
  "dbl_83_74999999999999 = 5893382324879359 / 2 ^ 46"

definition dbl_837_4999999999999 :: real where
  "dbl_837_4999999999999 = 7366727906099199 / 2 ^ 43"

definition dbl_83_7 :: real where
  "dbl_83_7 = 5889863887670477 / 2 ^ 46"

definition dbl_83_8 :: real where
  "dbl_83_8 = 5896900762088243 / 2 ^ 46"

definition dbl_85_5 :: real where
  "dbl_85_5 = 6016527627190272 / 2 ^ 46"

definition dbl_0_91 :: real where
  "dbl_0_91 = 8196551321814303 / 2 ^ 53"

definition dbl_0_876 :: real where
  "dbl_0_876 = 7890306547153109 / 2 ^ 53"

definition dbl_1_786 :: real where
  "dbl_1_786 = 8043428934483706 / 2 ^ 52"

definition dbl_0_893 :: real where
  "dbl_0_893 = 8043428934483706 / 2 ^ 53"

definition dbl_89_3 :: real where
  "dbl_89_3 = 6283928855065395 / 2 ^ 46"

definition dbl_0_95 :: real where
  "dbl_0_95 = 8556839292003942 / 2 ^ 53"

definition dbl_0_85 :: real where
  "dbl_0_85 = 7656119366529843 / 2 ^ 53"

definition dbl_0_7 :: real where
  "dbl_0_7 = 6305039478318694 / 2 ^ 53"

definition dbl_0_5 :: real where
  "dbl_0_5 = 4503599627370496 / 2 ^ 53"

definition dbl_0_01 :: real where
  "dbl_0_01 = 5764607523034235 / 2 ^ 59"

definition dbl_0_97 :: real where
  "dbl_0_97 = 8736983277098762 / 2 ^ 53"

definition dbl_95_5 :: real where
  "dbl_95_5 = 6720215068966912 / 2 ^ 46"

definition dbl_0_576 :: real where
  "dbl_0_576 = 5188146770730811 / 2 ^ 53"

definition dbl_0_3 :: real where
  "dbl_0_3 = 5404319552844595 / 2 ^ 54"

section \<open>Example inputs\<close>

definition final_hi :: TranscriptionResult where
  "final_hi = \<lparr>rtext = '' hi'', timestamp = 1, confidence = None, isFinal = True,
     latency = None\<rparr>"

definition interim_x :: TranscriptionResult where
  "interim_x = \<lparr>rtext = ''x'', timestamp = 2, confidence = None, isFinal = False,
     latency = None\<rparr>"

definition r_quick :: TranscriptionResult where
  "r_quick = \<lparr>rtext = ''the quick'', timestamp = 10, confidence = Some (Num dbl_0_91),
     isFinal = True, latency = Some (Num 120)\<rparr>"

definition r_brown :: TranscriptionResult where
  "r_brown = \<lparr>rtext = ''brown'', timestamp = 15, confidence = None, isFinal = False,
     latency = Some (Num 0)\<rparr>"

definition r_fox :: TranscriptionResult where
  "r_fox = \<lparr>rtext = ''brown  fox '', timestamp = 20, confidence = Some (Num dbl_0_876),
     isFinal = True, latency = Some (Num 51)\<rparr>"

definition r_silent :: TranscriptionResult where
  "r_silent = \<lparr>rtext = ''jumps'', timestamp = 30, confidence = None, isFinal = True,
     latency = Some (Num 0)\<rparr>"

text \<open>Two final results with the latencies 0.3 and 0.7.\<close>

definition two_finals :: "TranscriptionResult list" where
  "two_finals =
     [\<lparr>rtext = ''a'', timestamp = 50, confidence = None, isFinal = True,
        latency = Some (Num dbl_0_3)\<rparr>,
      \<lparr>rtext = ''b'', timestamp = 60, confidence = None, isFinal = True,
        latency = Some (Num dbl_0_7)\<rparr>]"

text \<open>A final result of one word with a given confidence, and eight of them: three of
  confidence 0.9, then five of confidence 0.8.\<close>

definition final_with :: "real \<Rightarrow> TranscriptionResult" where
  "final_with c = \<lparr>rtext = ''ok'', timestamp = 40, confidence = Some (Num c), isFinal = True,
     latency = Some (Num 0)\<rparr>"

definition eight_finals :: "TranscriptionResult list" where
  "eight_finals = [final_with dbl_0_9, final_with dbl_0_9, final_with dbl_0_9,
     final_with dbl_0_8, final_with dbl_0_8, final_with dbl_0_8, final_with dbl_0_8,
     final_with dbl_0_8]"

text \<open>A store that shows metrics, and the payload \<open>{ latency: 120, accuracy: 95.5 }\<close>.\<close>

definition store_with_metrics :: store_module where
  "store_with_metrics = initial_store\<lparr>metrics :=
     \<lparr>m_latency = Num 86, accuracy = Num dbl_89_3, wordCount = 5\<rparr>\<rparr>"

definition latency_accuracy_payload :: metrics_payload where
  "latency_accuracy_payload =
     \<lparr>p_latency = Some (Num 120), p_accuracy = Some (Num dbl_95_5), p_wordCount = None\<rparr>"

text \<open>Services that have not been started.\<close>

definition d_idle :: deepgram_service where
  "d_idle = \<lparr>connection = None, d_store = initial_store, d_mediaRecorder = None,
     d_stream = None, d_isActive = False, connectionStartTime = 0,
     d_audioActivityDetected = False, d_currentUtteranceStart = 0, d_chunkCounter = 0,
     d_audioChunkTimestamps = [], audioCursor = 0, sessionStartTime = 0,
     audioStreamStartTime = 0, d_effects = []\<rparr>"

definition v_idle :: verbum_service where
  "v_idle = \<lparr>socket = None, v_store = initial_store, v_isActive = False,
     v_isConnecting = False, onTranscription = None, startTime = 0, v_results = [],
     v_mediaRecorder = None, v_stream = None, v_audioChunkTimestamps = [],
     v_currentUtteranceStart = 0, v_audioActivityDetected = False, v_chunkCounter = 0,
     v_effects = []\<rparr>"

text \<open>A Verbum session that is connected and has handed over five chunks of 120 bytes,
  the first of them at time 1000.\<close>

definition opus_chunk :: array_buffer where
  "opus_chunk = replicate 120 85"

definition v_streaming :: verbum_service where
  "v_streaming =
     v_chunk 1080 opus_chunk (v_chunk 1060 opus_chunk (v_chunk 1040 opus_chunk
       (v_chunk 1020 opus_chunk (v_chunk 1000 opus_chunk
         (snd (v_startAudioStreaming Handle False
           (v_on_connect (v_startTranscription 900 False v_idle))))))))"

text \<open>Events of Verbum: an interim one with the offset 0.02 s and the duration 0.03 s,
  and a final one.\<close>

definition speech_interim :: VerbumSpeechResult where
  "speech_interim = \<lparr>e_text = ''hello'', e_confidence = Some (ConfWord ''high''),
     e_status = recognizing, e_duration = Some (Num dbl_0_03),
     e_offset = Some (Num dbl_0_02)\<rparr>"

definition speech_final :: VerbumSpeechResult where
  "speech_final = \<lparr>e_text = ''hello world'', e_confidence = Some (ConfNumber (Num dbl_0_9)),
     e_status = recognized, e_duration = None, e_offset = None\<rparr>"

text \<open>Events of Deepgram. \<open>dg_interim\<close> is an interim event of the declared type
  \<open>DeepgramResponse\<close>: \<open>start\<close> 0.02 s and \<open>duration\<close> 0.03 s are fields of the event, and
  its alternative has a transcript and a confidence only. \<open>dg_interim_alt\<close> carries the same
  \<open>start\<close> and \<open>duration\<close> on its first alternative as well. \<open>dg_final\<close> is a final event.\<close>

definition dg_interim :: dg_data where
  "dg_interim = \<lparr>ev_start = Num dbl_0_02, ev_duration = Num dbl_0_03, is_final = False,
     alternative = Some \<lparr>transcript = ''hello'', a_confidence = Some (Num dbl_0_9),
       a_start = None, a_duration = None\<rparr>\<rparr>"

definition dg_interim_alt :: dg_data where
  "dg_interim_alt = \<lparr>ev_start = Num dbl_0_02, ev_duration = Num dbl_0_03, is_final = False,
     alternative = Some \<lparr>transcript = ''hello'', a_confidence = Some (Num dbl_0_9),
       a_start = Some (Num dbl_0_02), a_duration = Some (Num dbl_0_03)\<rparr>\<rparr>"

definition dg_final :: dg_data where
  "dg_final = \<lparr>ev_start = Num 0, ev_duration = Num 1, is_final = True,
     alternative = Some \<lparr>transcript = ''hello world'', a_confidence = Some (Num dbl_0_97),
       a_start = None, a_duration = None\<rparr>\<rparr>"

text \<open>A Deepgram session just started; buffers of 1024 samples, of silence and of a
  constant signal; the session after two and after three buffers.\<close>

definition d_started :: deepgram_service where
  "d_started = snd (d_startTranscription 900 Handle False False d_idle)"

definition silence :: "real list" where
  "silence = replicate 1024 0"

definition signal :: "real list" where
  "signal = replicate 1024 (1 / 4)"

definition d_two_chunks :: deepgram_service where
  "d_two_chunks = d_run [AudioProcess 1000 signal, AudioProcess 1064 signal] d_started"

definition d_three_chunks :: deepgram_service where
  "d_three_chunks = d_run [AudioProcess 1000 signal, AudioProcess 1064 signal,
     AudioProcess 1128 signal] d_started"

text \<open>Nine buffers of 1024 samples, and two buffers with a transcript and the \<open>Close\<close>
  event between them.\<close>

definition nine_buffers :: "d_event list" where
  "nine_buffers = [AudioProcess 1000 signal, AudioProcess 1064 signal,
     AudioProcess 1128 signal, AudioProcess 1192 silence, AudioProcess 1256 silence,
     AudioProcess 1320 signal, AudioProcess 1384 signal, AudioProcess 1448 silence,
     AudioProcess 1512 silence]"

definition closed_between :: "d_event list" where
  "closed_between = [AudioProcess 1000 signal, Transcript 1050 dg_interim, Closed,
     AudioProcess 1064 silence]"

text \<open>A Verbum session that is connected and has handed over no chunk yet.\<close>

definition v_connected :: verbum_service where
  "v_connected = v_on_connect (v_startTranscription 900 False v_idle)"

text \<open>A Deepgram session with one final result.\<close>

definition d_with_result :: deepgram_service where
  "d_with_result = handleTranscriptResult 2000 dg_final d_started"

text \<open>A Deepgram service whose start failed when the audio context was created, and a
  session that the server has closed.\<close>

definition d_failed :: deepgram_service where
  "d_failed = snd (d_startTranscription 900 Handle False True d_idle)"

definition d_closed :: deepgram_service where
  "d_closed = d_on_close d_started"

text \<open>A Verbum session with one final result.\<close>

definition v_with_result :: verbum_service where
  "v_with_result = snd (handleSpeechResult 2000 speech_final v_streaming)"

text \<open>An event of the Web Speech fallback with one final result of no stated confidence,
  read by a service whose connection to Verbum failed.\<close>

definition web_event :: SpeechRecognitionEvent where
  "web_event = \<lparr>resultIndex = 0, w_results =
     [\<lparr>w_transcript = ''hello world'', w_confidence = Num 0, w_isFinal = True\<rparr>]\<rparr>"

definition v_fallback :: verbum_service where
  "v_fallback = v_catch (v_startTranscription 900 False v_idle)"

section \<open>Rounding to a double\<close>

declare log2_up.simps [simp del] log2_down.simps [simp del]

lemma log2_up_bounds:
  "1 \<le> x \<Longrightarrow> 2 powi (log2_up x e - e) \<le> x \<and> x < 2 powi (log2_up x e - e + 1)"
proof (induction x e rule: log2_up.induct)
  case (1 x e)
  show ?case
  proof (cases "2 \<le> x")
    case True
    then have "1 \<le> x / 2" by simp
    from "1.IH" [OF True this] True show ?thesis
      by (subst (1 2) log2_up.simps) (simp add: power_int_diff power_int_add field_simps)
  next
    case False
    with "1.prems" show ?thesis
      by (subst (1 2) log2_up.simps) simp
  qed
qed

lemma log2_down_bounds:
  "0 < x \<Longrightarrow> x < 2 \<Longrightarrow> 2 powi (log2_down x e - e) \<le> x \<and> x < 2 powi (log2_down x e - e + 1)"
proof (induction x e rule: log2_down.induct)
  case (1 x e)
  show ?case
  proof (cases "x < 1")
    case True
    with "1.prems" have c: "0 < x \<and> x < 1" by simp
    have "0 < 2 * x" "2 * x < 2" using c by simp_all
    from "1.IH" [OF c this] c show ?thesis
      by (subst (1 2) log2_down.simps) (simp add: power_int_diff power_int_add field_simps)
  next
    case False
    with "1.prems" show ?thesis
      by (subst (1 2) log2_down.simps) simp
  qed
qed

lemma ilog2_bounds:
  assumes "0 < x"
  shows "2 powi ilog2 x \<le> x" "x < 2 powi (ilog2 x + 1)"
proof -
  have "2 powi ilog2 x \<le> x \<and> x < 2 powi (ilog2 x + 1)"
  proof (cases "1 \<le> x")
    case True
    from log2_up_bounds [OF this, of 0] True show ?thesis by (simp add: ilog2_def)
  next
    case False
    with assms log2_down_bounds [of x 0] show ?thesis by (simp add: ilog2_def)
  qed
  then show "2 powi ilog2 x \<le> x" "x < 2 powi (ilog2 x + 1)" by simp_all
qed

lemma pow2_mono: "a \<le> b \<Longrightarrow> (2::real) powi a \<le> 2 powi b"
  by (rule power_int_increasing) simp_all

lemma pow2_less: "(2::real) powi a < 2 powi b \<Longrightarrow> a < b"
  using pow2_mono [of b a] by (cases "a < b") auto

lemma ilog2_unique:
  assumes "2 powi k \<le> x" "x < 2 powi (k + 1)"
  shows "ilog2 x = k"
proof -
  have "(0::real) < 2 powi k" by simp
  with assms have pos: "0 < x" by linarith
  note b = ilog2_bounds [OF pos]
  have "2 powi k < (2::real) powi (ilog2 x + 1)" using assms(1) b(2) by linarith
  then have "k < ilog2 x + 1" by (rule pow2_less)
  moreover have "2 powi ilog2 x < (2::real) powi (k + 1)" using assms(2) b(1) by linarith
  then have "ilog2 x < k + 1" by (rule pow2_less)
  ultimately show ?thesis by simp
qed

lemma ilog2_mono:
  assumes "0 < x" "x \<le> y"
  shows "ilog2 x \<le> ilog2 y"
proof -
  have "0 < y" using assms by simp
  have "2 powi ilog2 x < (2::real) powi (ilog2 y + 1)"
    using ilog2_bounds(1) [OF assms(1)] ilog2_bounds(2) [OF \<open>0 < y\<close>] assms(2) by linarith
  then have "ilog2 x < ilog2 y + 1" by (rule pow2_less)
  then show ?thesis by simp
qed


lemma rne_floor_le: "\<lfloor>y\<rfloor> \<le> rne y"
  by (simp add: rne_def Let_def)

lemma rne_le: "rne y \<le> \<lfloor>y\<rfloor> + 1"
  by (simp add: rne_def Let_def)

lemma int_le_rne: "of_int n \<le> y \<Longrightarrow> n \<le> rne y"
proof -
  assume "of_int n \<le> y"
  then have "n \<le> \<lfloor>y\<rfloor>" by (simp add: le_floor_iff)
  with rne_floor_le [of y] show ?thesis by simp
qed

lemma rne_le_int: "y \<le> of_int n \<Longrightarrow> rne y \<le> n"
proof -
  assume a: "y \<le> of_int n"
  show ?thesis
  proof (cases "y = of_int n")
    case True
    then show ?thesis by (simp add: rne_def Let_def)
  next
    case False
    with a have "y < of_int n" by simp
    then have "\<lfloor>y\<rfloor> < n" by (simp add: floor_less_iff)
    with rne_le [of y] show ?thesis by simp
  qed
qed

lemma rne_near: "\<bar>y - of_int n\<bar> * 2 < 1 \<Longrightarrow> rne y = n"
proof -
  assume a: "\<bar>y - of_int n\<bar> * 2 < 1"
  show ?thesis
  proof (cases "of_int n \<le> y")
    case True
    with a have "\<lfloor>y\<rfloor> = n" by (simp add: floor_eq_iff)
    with a True show ?thesis by (simp add: rne_def Let_def)
  next
    case False
    with a have f: "\<lfloor>y\<rfloor> = n - 1" by (simp add: floor_eq_iff)
    with a False have "1 / 2 < y - of_int \<lfloor>y\<rfloor>" by simp
    with f show ?thesis by (simp add: rne_def Let_def)
  qed
qed

lemma quantum_pos: "0 < quantum x"
  by (simp add: quantum_def)

lemma rne_tie: "\<bar>y - of_int n\<bar> * 2 = 1 \<Longrightarrow> even n \<Longrightarrow> rne y = n"
proof -
  assume a: "\<bar>y - of_int n\<bar> * 2 = 1" and e: "even n"
  show ?thesis
  proof (cases "of_int n \<le> y")
    case True
    with a have "\<lfloor>y\<rfloor> = n" by (simp add: floor_eq_iff)
    moreover from a True have "y - of_int n = 1 / 2" by simp
    ultimately show ?thesis using e by (simp add: rne_def Let_def)
  next
    case False
    with a have f: "\<lfloor>y\<rfloor> = n - 1" by (simp add: floor_eq_iff)
    from a False have "y - of_int (n - 1) = 1 / 2" by simp
    with f e show ?thesis by (simp add: rne_def Let_def)
  qed
qed

text \<open>Evaluating a rounding whose result is a normal number with a negative exponent.\<close>

lemma fl_eqI:
  assumes "2 ^ 52 \<le> \<bar>x\<bar> * 2 ^ k" "\<bar>x\<bar> * 2 ^ k < 2 ^ 53" "k \<le> 1074"
    and "rne (x * 2 ^ k) = n"
  shows "fl x = Num (of_int n / 2 ^ k)"
proof -
  have x0: "x \<noteq> 0" using assms(1) by auto
  have p: "(2::real) powi (52 - int k) = 2 ^ 52 / 2 ^ k"
    by (simp add: power_int_diff)
  have p1: "(2::real) powi (52 - int k + 1) = 2 ^ 53 / 2 ^ k"
    by (simp add: power_int_diff power_int_add)
  have "2 powi (52 - int k) \<le> \<bar>x\<bar>" "\<bar>x\<bar> < 2 powi (52 - int k + 1)"
    unfolding p p1 using assms(1,2) by (simp_all add: field_simps)
  then have "ilog2 \<bar>x\<bar> = 52 - int k" by (rule ilog2_unique)
  then have "quantum x = 2 powi (- int k)"
    using assms(3) by (simp add: quantum_def max_def)
  then have q: "quantum x = 1 / 2 ^ k"
    by (simp add: power_int_minus field_simps)
  have r: "rne (x / quantum x) = n"
    using assms(4) by (simp add: q)
  define z where "z = x * 2 ^ k"
  have az: "\<bar>z\<bar> = \<bar>x\<bar> * 2 ^ k" by (simp add: z_def abs_mult)
  have "\<lfloor>z\<rfloor> \<le> n" "n \<le> \<lfloor>z\<rfloor> + 1"
    using rne_floor_le [of z] rne_le [of z] assms(4) by (simp_all add: z_def)
  then have "\<bar>z - of_int n\<bar> \<le> 1" by linarith
  moreover have "\<bar>z\<bar> < 2 ^ 53" using assms(2) az by simp
  ultimately have n: "\<bar>real_of_int n\<bar> < 2 ^ 53 + 1" by (simp add: abs_if split: if_splits)
  have "(1::real) \<le> 2 ^ k" by simp
  then have "\<bar>real_of_int n\<bar> * 1 \<le> \<bar>real_of_int n\<bar> * 2 ^ k"
    by (intro mult_left_mono) simp_all
  then have "\<bar>real_of_int n\<bar> / 2 ^ k \<le> \<bar>real_of_int n\<bar>"
    by (simp add: field_simps)
  also note n
  also have "(2::real) ^ 53 + 1 < 2 ^ 1024" by simp
  finally have "\<not> 2 powi 1024 \<le> \<bar>of_int n * quantum x\<bar>"
    by (simp add: q abs_mult)
  then show ?thesis
    using x0 r by (simp add: fl_def Let_def) (simp add: q)
qed

lemma fl_near:
  assumes "2 ^ 52 \<le> \<bar>x\<bar> * 2 ^ k" "\<bar>x\<bar> * 2 ^ k < 2 ^ 53" "k \<le> 1074"
    and "\<bar>x * 2 ^ k - of_int n\<bar> * 2 < 1"
  shows "fl x = Num (of_int n / 2 ^ k)"
  using assms(1-3) rne_near [OF assms(4)] by (rule fl_eqI)

lemma fl_tie:
  assumes "2 ^ 52 \<le> \<bar>x\<bar> * 2 ^ k" "\<bar>x\<bar> * 2 ^ k < 2 ^ 53" "k \<le> 1074"
    and "\<bar>x * 2 ^ k - of_int n\<bar> * 2 = 1" "even n"
  shows "fl x = Num (of_int n / 2 ^ k)"
  using assms(1-3) rne_tie [OF assms(4,5)] by (rule fl_eqI)

lemma quantum_eq:
  "0 < x \<Longrightarrow> quantum x = 2 powi (max (ilog2 x) (- 1022) - 52)"
  by (simp add: quantum_def)

lemma pow2_add1: "(2::real) powi (k + 1) = 2 * 2 powi k"
  by (simp add: power_int_add)

lemma grid_is_double:
  assumes "- 1074 \<le> k" "0 < n" "n \<le> 2 ^ 53" "n < 2 ^ 52 \<longrightarrow> k = - 1074"
  shows "of_int \<lfloor>(of_int n * 2 powi k) / quantum (of_int n * 2 powi k)\<rfloor>
           * quantum (of_int n * 2 powi k) = of_int n * 2 powi k"
proof -
  define r :: real where "r = of_int n * 2 powi k"
  have rpos: "0 < r" using assms(2) by (simp add: r_def)
  have p52: "(2::real) powi (k + 52) = 2 ^ 52 * 2 powi k"
    and p53: "(2::real) powi (k + 53) = 2 ^ 53 * 2 powi k"
    by (simp_all add: power_int_add)
  consider "n < 2 ^ 52" | "2 ^ 52 \<le> n" "n < 2 ^ 53" | "n = 2 ^ 53"
    using assms(3) by linarith
  then have "\<exists>m::int. r = of_int m * quantum r"
  proof cases
    case 1
    with assms(4) have k: "k = - 1074" by simp
    have "real_of_int n < 2 ^ 52" using 1 by (metis of_int_less_iff of_int_numeral of_int_power)
    then have "r < 2 ^ 52 * 2 powi k" by (simp add: r_def)
    also have "\<dots> = 2 powi (- 1022)" using p52 by (simp add: k)
    finally have "r < 2 powi (- 1022)" .
    with ilog2_bounds(1) [OF rpos] have "(2::real) powi ilog2 r < 2 powi (- 1022)" by linarith
    then have "ilog2 r < - 1022" by (rule pow2_less)
    then have "max (ilog2 r) (- 1022) - 52 = k" by (simp add: k)
    then have "quantum r = 2 powi k" using rpos by (simp only: quantum_eq)
    then show ?thesis by (auto simp: r_def)
  next
    case 2
    have "real_of_int (2 ^ 52) \<le> real_of_int n" "real_of_int n < real_of_int (2 ^ 53)"
      using 2 by (simp_all only: of_int_le_iff of_int_less_iff)
    then have "2 powi (k + 52) \<le> r" "r < 2 powi (k + 52 + 1)"
      unfolding p52 using p53 by (simp_all add: r_def add.assoc)
    then have "ilog2 r = k + 52" by (rule ilog2_unique)
    moreover have "max (k + 52) (- 1022) - 52 = k" using assms(1) by simp
    ultimately have "quantum r = 2 powi k" using rpos by (simp only: quantum_eq)
    then show ?thesis by (auto simp: r_def)
  next
    case 3
    have r: "r = 2 powi (k + 53)" unfolding p53 by (simp add: r_def 3)
    have "(2::real) powi (k + 53 + 1) = 2 * 2 powi (k + 53)" by (rule pow2_add1)
    moreover have "(0::real) < 2 powi (k + 53)" by simp
    ultimately have "2 powi (k + 53) \<le> r" "r < 2 powi (k + 53 + 1)"
      unfolding r by linarith+
    then have "ilog2 r = k + 53" by (rule ilog2_unique)
    moreover have "max (k + 53) (- 1022) - 52 = k + 1" using assms(1) by simp
    ultimately have "quantum r = 2 powi (k + 1)" using rpos by (simp only: quantum_eq)
    then have "r = of_int (2 ^ 52) * quantum r"
      unfolding r by (simp add: power_int_add)
    then show ?thesis by blast
  qed
  then obtain m :: int where m: "r = of_int m * quantum r" ..
  have "r / quantum r = of_int m"
    using m quantum_pos [of r] by (simp add: field_simps)
  then have "of_int \<lfloor>r / quantum r\<rfloor> * quantum r = r"
    using m by simp
  then show ?thesis by (simp add: r_def)
qed

text \<open>The rounding of a positive number: its grid and its integer.\<close>

lemma fl_pos_cases:
  assumes "0 < x"
  defines "k \<equiv> max (ilog2 x) (- 1022) - 52"
  defines "n \<equiv> rne (x / 2 powi k)"
  shows "fl x = (if (2::real) powi 1024 \<le> of_int n * 2 powi k then PosInf
                 else Num (of_int n * 2 powi k))"
    and "0 \<le> n" and "n \<le> 2 ^ 53" and "n < 2 ^ 52 \<longrightarrow> k = - 1074" and "- 1074 \<le> k"
proof -
  have q: "quantum x = 2 powi k" using assms(1) by (simp add: quantum_eq k_def)
  have y0: "0 \<le> x / 2 powi k" using assms(1) by simp
  then have "of_int 0 \<le> x / 2 powi k" by simp
  then show n0: "0 \<le> n" unfolding n_def by (rule int_le_rne)
  then show "fl x = (if (2::real) powi 1024 \<le> of_int n * 2 powi k then PosInf
                     else Num (of_int n * 2 powi k))"
    using assms(1) by (simp add: fl_def Let_def q n_def abs_mult)
  show k: "- 1074 \<le> k" by (simp add: k_def)
  have "ilog2 x \<le> k + 52" by (simp add: k_def)
  then have "(2::real) powi (ilog2 x + 1) \<le> 2 powi (k + 53)"
    by (intro pow2_mono) simp
  with ilog2_bounds(2) [OF assms(1)] have "x < 2 powi (k + 53)" by linarith
  also have "\<dots> = 2 ^ 53 * 2 powi k" by (simp add: power_int_add)
  finally have "x / 2 powi k < 2 ^ 53" by (simp add: field_simps)
  then have "x / 2 powi k \<le> of_int (2 ^ 53)" by simp
  then show "n \<le> 2 ^ 53" unfolding n_def by (rule rne_le_int)
  show "n < 2 ^ 52 \<longrightarrow> k = - 1074"
  proof (rule ccontr)
    assume "\<not> (n < 2 ^ 52 \<longrightarrow> k = - 1074)"
    then have n: "n < 2 ^ 52" and "k \<noteq> - 1074" by simp_all
    with k have "ilog2 x = k + 52" by (simp add: k_def max_def split: if_splits)
    with ilog2_bounds(1) [OF assms(1)] have "2 powi (k + 52) \<le> x" by simp
    then have "2 ^ 52 * 2 powi k \<le> x" by (simp add: power_int_add)
    then have "of_int (2 ^ 52) \<le> x / 2 powi k" by (simp add: field_simps)
    then have "2 ^ 52 \<le> n" unfolding n_def by (rule int_le_rne)
    with n show False by simp
  qed
qed

lemma fl_good: "0 \<le> x \<Longrightarrow> good (fl x)"
proof (cases "x = 0")
  case True
  then show ?thesis by (simp add: fl_def is_double_def)
next
  case False
  assume "0 \<le> x"
  with False have pos: "0 < x" by simp
  define k where "k = max (ilog2 x) (- 1022) - 52"
  define n where "n = rne (x / 2 powi k)"
  note c = fl_pos_cases [OF pos, folded k_def n_def]
  show ?thesis
  proof (cases "(2::real) powi 1024 \<le> of_int n * 2 powi k")
    case True
    with c(1) show ?thesis by simp
  next
    case False
    have "is_double (of_int n * 2 powi k)"
    proof (cases "n = 0")
      case True
      then show ?thesis by (simp add: is_double_def)
    next
      case n0: False
      with c(2) have "0 < n" by simp
      from grid_is_double [OF c(5) this c(3) c(4)] False c(2) show ?thesis
        by (simp add: is_double_def abs_mult)
    qed
    with False c(1,2) show ?thesis by simp
  qed
qed

lemma fl_above:
  assumes "0 < c" "is_double c" "c \<le> x"
  shows "js_le (Num c) (fl x)"
proof -
  have pos: "0 < x" using assms by simp
  define k where "k = max (ilog2 x) (- 1022) - 52"
  define n where "n = rne (x / 2 powi k)"
  note f = fl_pos_cases [OF pos, folded k_def n_def]
  define kc where "kc = max (ilog2 c) (- 1022) - 52"
  have qc: "quantum c = 2 powi kc" using assms(1) by (simp add: quantum_eq kc_def)
  have le: "kc \<le> k" using ilog2_mono [OF assms(1,3)] by (simp add: kc_def k_def)
  have "c \<le> real_of_int n * 2 powi k"
  proof (cases "kc = k")
    case True
    define m where "m = \<lfloor>c / 2 powi kc\<rfloor>"
    have c: "c = of_int m * 2 powi k" using assms(2) by (simp add: is_double_def qc m_def True)
    then have "of_int m = c / 2 powi k" by simp
    also have "\<dots> \<le> x / 2 powi k" using assms(3) by (simp add: divide_right_mono)
    finally have "m \<le> n" unfolding n_def by (rule int_le_rne)
    then have "real_of_int m \<le> real_of_int n" by simp
    then show ?thesis unfolding c by (simp add: mult_right_mono)
  next
    case False
    with le have lt: "kc < k" by simp
    then have kx: "ilog2 x = k + 52" and "ilog2 c + 1 \<le> k + 52"
      by (simp_all add: kc_def k_def max_def split: if_splits)
    then have "(2::real) powi (ilog2 c + 1) \<le> 2 powi (k + 52)" by (intro pow2_mono)
    with ilog2_bounds(2) [OF assms(1)] have c: "c < 2 powi (k + 52)" by linarith
    from ilog2_bounds(1) [OF pos] kx have "2 powi (k + 52) \<le> x" by simp
    then have "2 ^ 52 * 2 powi k \<le> x" by (simp add: power_int_add)
    then have "of_int (2 ^ 52) \<le> x / 2 powi k" by (simp add: field_simps)
    then have "2 ^ 52 \<le> n" unfolding n_def by (rule int_le_rne)
    then have "real_of_int (2 ^ 52) \<le> real_of_int n" by (simp only: of_int_le_iff)
    then have "2 ^ 52 * 2 powi k \<le> real_of_int n * 2 powi k" by (simp add: mult_right_mono)
    moreover have "(2::real) powi (k + 52) = 2 ^ 52 * 2 powi k" by (simp add: power_int_add)
    ultimately show ?thesis using c by linarith
  qed
  with f(1) show ?thesis by simp
qed


text \<open>The arithmetic of the examples: each lemma gives the double that one operation
  returns, found from the exact result by \<open>fl_near\<close> or \<open>fl_tie\<close>.\<close>

lemma ev_div_1024_o_16000: "dbl_div (Num 1024) (Num 16000) = Num dbl_0_064"
  unfolding dbl_0_064_def
  using fl_near [of "8 / 125" 56 "4611686018427388"] by simp

lemma ev_add_0_o_0_064: "dbl_add (Num 0) (Num dbl_0_064) = Num dbl_0_064"
  unfolding dbl_0_064_def
  using fl_near [of "1152921504606847 / 18014398509481984" 56 "4611686018427388"] by simp

lemma ev_add_0_064_o_0_064: "dbl_add (Num dbl_0_064) (Num dbl_0_064) = Num dbl_0_128"
  unfolding dbl_0_064_def dbl_0_128_def
  using fl_near [of "1152921504606847 / 9007199254740992" 55 "4611686018427388"] by simp

lemma ev_add_0_128_o_0_064: "dbl_add (Num dbl_0_128) (Num dbl_0_064) = Num dbl_0_192"
  unfolding dbl_0_064_def dbl_0_128_def dbl_0_192_def
  using fl_near [of "3458764513820541 / 18014398509481984" 55 "6917529027641082"] by simp

lemma ev_add_0_192_o_0_064: "dbl_add (Num dbl_0_192) (Num dbl_0_064) = Num dbl_0_256"
  unfolding dbl_0_064_def dbl_0_192_def dbl_0_256_def
  using fl_near [of "1152921504606847 / 4503599627370496" 54 "4611686018427388"] by simp

lemma ev_add_0_256_o_0_064: "dbl_add (Num dbl_0_256) (Num dbl_0_064) = Num dbl_0_32"
  unfolding dbl_0_064_def dbl_0_256_def dbl_0_32_def
  using fl_near [of "5764607523034235 / 18014398509481984" 54 "5764607523034235"] by simp

lemma ev_add_0_32_o_0_064: "dbl_add (Num dbl_0_32) (Num dbl_0_064) = Num dbl_0_384"
  unfolding dbl_0_064_def dbl_0_32_def dbl_0_384_def
  using fl_near [of "3458764513820541 / 9007199254740992" 54 "6917529027641082"] by simp

lemma ev_add_0_384_o_0_064: "dbl_add (Num dbl_0_384) (Num dbl_0_064) = Num dbl_0_448"
  unfolding dbl_0_064_def dbl_0_384_def dbl_0_448_def
  using fl_near [of "8070450532247929 / 18014398509481984" 54 "8070450532247929"] by simp

lemma ev_add_0_448_o_0_064: "dbl_add (Num dbl_0_448) (Num dbl_0_064) = Num dbl_0_512"
  unfolding dbl_0_064_def dbl_0_448_def dbl_0_512_def
  using fl_near [of "1152921504606847 / 2251799813685248" 53 "4611686018427388"] by simp

lemma ev_add_0_512_o_0_064: "dbl_add (Num dbl_0_512) (Num dbl_0_064) = Num dbl_0_5760000000000001"
  unfolding dbl_0_064_def dbl_0_512_def dbl_0_5760000000000001_def
  using fl_tie [of "10376293541461623 / 18014398509481984" 53 "5188146770730812"] by simp

lemma ev_lit_0_02: "fl (1 / 50) = Num dbl_0_02"
  unfolding dbl_0_02_def
  using fl_near [of "1 / 50" 58 "5764607523034235"] by simp

lemma ev_lit_0_03: "fl (3 / 100) = Num dbl_0_03"
  unfolding dbl_0_03_def
  using fl_near [of "3 / 100" 58 "8646911284551352"] by simp

lemma ev_add_0_02_o_0_03: "dbl_add (Num dbl_0_02) (Num dbl_0_03) = Num dbl_0_05"
  unfolding dbl_0_02_def dbl_0_03_def dbl_0_05_def
  using fl_tie [of "14411518807585587 / 288230376151711744" 57 "7205759403792794"] by simp

lemma ev_sub_0_128_o_0_05: "dbl_sub (Num dbl_0_128) (Num dbl_0_05) = Num dbl_0_078"
  unfolding dbl_0_05_def dbl_0_078_def dbl_0_128_def dbl_sub_def
  using fl_near [of "5620492334958379 / 72057594037927936" 56 "5620492334958379"] by simp

lemma ev_mul_0_078_o_1000: "dbl_mul (Num dbl_0_078) (Num 1000) = Num 78"
  unfolding dbl_0_078_def
  using fl_near [of "702561541869797375 / 9007199254740992" 46 "5488762045857792"] by simp

lemma ev_max0_78: "Math_max (Num 0) (Num 78) = Num 78"
  by simp

lemma ev_sub_0_192_o_0_05: "dbl_sub (Num dbl_0_192) (Num dbl_0_05) = Num dbl_0_14200000000000002"
  unfolding dbl_0_05_def dbl_0_14200000000000002_def dbl_0_192_def dbl_sub_def
  using fl_tie [of "10232178353385767 / 72057594037927936" 55 "5116089176692884"] by simp

lemma ev_mul_0_14200000000000002_o_1000: "dbl_mul (Num dbl_0_14200000000000002) (Num 1000) = Num dbl_142_00000000000003"
  unfolding dbl_0_14200000000000002_def dbl_142_00000000000003_def
  using fl_near [of "159877786771652625 / 1125899906842624" 45 "4996180836614145"] by simp

lemma ev_max0_142_00000000000003: "Math_max (Num 0) (Num dbl_142_00000000000003) = Num dbl_142_00000000000003"
  unfolding dbl_142_00000000000003_def
  by simp

lemma ev_mul_5_o_20: "dbl_mul (Num 5) (Num 20) = Num 100"
  using fl_near [of "100" 46 "7036874417766400"] by simp

lemma ev_div_100_o_1000: "dbl_div (Num 100) (Num 1000) = Num dbl_0_1"
  unfolding dbl_0_1_def
  using fl_near [of "1 / 10" 56 "7205759403792794"] by simp

lemma ev_sub_0_1_o_0_05: "dbl_sub (Num dbl_0_1) (Num dbl_0_05) = Num dbl_0_05"
  unfolding dbl_0_05_def dbl_0_1_def dbl_sub_def
  using fl_near [of "3602879701896397 / 72057594037927936" 57 "7205759403792794"] by simp

lemma ev_mul_0_05_o_1000: "dbl_mul (Num dbl_0_05) (Num 1000) = Num 50"
  unfolding dbl_0_05_def
  using fl_near [of "450359962737049625 / 9007199254740992" 47 "7036874417766400"] by simp

lemma ev_max0_50: "Math_max (Num 0) (Num 50) = Num 50"
  by simp

lemma ev_add_5_o_0_03: "dbl_add (Num 5) (Num dbl_0_03) = Num dbl_5_03"
  unfolding dbl_0_03_def dbl_5_03_def
  using fl_near [of "181224849005388759 / 36028797018963968" 50 "5663276531418399"] by simp

lemma ev_sub_0_1_o_5_03: "dbl_sub (Num dbl_0_1) (Num dbl_5_03) = Num dbl_m4_930000000000001"
  unfolding dbl_0_1_def dbl_5_03_def dbl_m4_930000000000001_def dbl_sub_def
  using fl_near [of "- (177621969303492371 / 36028797018963968)" 50 "- 5550686540734137"] by simp

lemma ev_mul_m4_930000000000001_o_1000: "dbl_mul (Num dbl_m4_930000000000001) (Num 1000) = Num dbl_m4930_000000000001"
  unfolding dbl_m4930_000000000001_def dbl_m4_930000000000001_def
  using fl_near [of "- (693835817591767125 / 140737488355328)" 40 "- 5420592324935681"] by simp

lemma ev_max0_m4930_000000000001: "Math_max (Num 0) (Num dbl_m4930_000000000001) = Num 0"
  unfolding dbl_m4930_000000000001_def
  by simp

lemma ev_lit_0_9: "fl (9 / 10) = Num dbl_0_9"
  unfolding dbl_0_9_def
  using fl_near [of "9 / 10" 53 "8106479329266893"] by simp

lemma ev_lit_0_8: "fl (4 / 5) = Num dbl_0_8"
  unfolding dbl_0_8_def
  using fl_near [of "4 / 5" 53 "7205759403792794"] by simp

lemma ev_add_0_o_0_9: "dbl_add (Num 0) (Num dbl_0_9) = Num dbl_0_9"
  unfolding dbl_0_9_def
  using fl_near [of "8106479329266893 / 9007199254740992" 53 "8106479329266893"] by simp

lemma ev_add_0_9_o_0_9: "dbl_add (Num dbl_0_9) (Num dbl_0_9) = Num dbl_1_8"
  unfolding dbl_0_9_def dbl_1_8_def
  using fl_near [of "8106479329266893 / 4503599627370496" 52 "8106479329266893"] by simp

lemma ev_add_1_8_o_0_9: "dbl_add (Num dbl_1_8) (Num dbl_0_9) = Num dbl_2_7"
  unfolding dbl_0_9_def dbl_1_8_def dbl_2_7_def
  using fl_near [of "24319437987800679 / 9007199254740992" 51 "6079859496950170"] by simp

lemma ev_add_2_7_o_0_8: "dbl_add (Num dbl_2_7) (Num dbl_0_8) = Num dbl_3_5"
  unfolding dbl_0_8_def dbl_2_7_def dbl_3_5_def
  using fl_tie [of "15762598695796737 / 4503599627370496" 51 "7881299347898368"] by simp

lemma ev_add_3_5_o_0_8: "dbl_add (Num dbl_3_5) (Num dbl_0_8) = Num dbl_4_3"
  unfolding dbl_0_8_def dbl_3_5_def dbl_4_3_def
  using fl_near [of "19365478397693133 / 4503599627370496" 50 "4841369599423283"] by simp

lemma ev_add_4_3_o_0_8: "dbl_add (Num dbl_4_3) (Num dbl_0_8) = Num dbl_5_1"
  unfolding dbl_0_8_def dbl_4_3_def dbl_5_1_def
  using fl_near [of "22968358099589529 / 4503599627370496" 50 "5742089524897382"] by simp

lemma ev_add_5_1_o_0_8: "dbl_add (Num dbl_5_1) (Num dbl_0_8) = Num dbl_5_8999999999999995"
  unfolding dbl_0_8_def dbl_5_1_def dbl_5_8999999999999995_def
  using fl_near [of "26571237801485925 / 4503599627370496" 50 "6642809450371481"] by simp

lemma ev_add_5_8999999999999995_o_0_8: "dbl_add (Num dbl_5_8999999999999995) (Num dbl_0_8) = Num dbl_6_699999999999999"
  unfolding dbl_0_8_def dbl_5_8999999999999995_def dbl_6_699999999999999_def
  using fl_near [of "30174117503382321 / 4503599627370496" 50 "7543529375845580"] by simp

lemma ev_div_6_699999999999999_o_8: "dbl_div (Num dbl_6_699999999999999) (Num 8) = Num dbl_0_8374999999999999"
  unfolding dbl_0_8374999999999999_def dbl_6_699999999999999_def
  using fl_near [of "1885882343961395 / 2251799813685248" 53 "7543529375845580"] by simp

lemma ev_mul_0_8374999999999999_o_100: "dbl_mul (Num dbl_0_8374999999999999) (Num 100) = Num dbl_83_74999999999999"
  unfolding dbl_0_8374999999999999_def dbl_83_74999999999999_def
  using fl_near [of "47147058599034875 / 562949953421312" 46 "5893382324879359"] by simp

lemma ev_mul_83_74999999999999_o_10: "dbl_mul (Num dbl_83_74999999999999) (Num 10) = Num dbl_837_4999999999999"
  unfolding dbl_837_4999999999999_def dbl_83_74999999999999_def
  using fl_near [of "29466911624396795 / 35184372088832" 43 "7366727906099199"] by simp

lemma ev_round_837_4999999999999: "Math_round (Num dbl_837_4999999999999) = Num 837"
  unfolding dbl_837_4999999999999_def
  by (simp add: floor_eq_iff)

lemma ev_div_837_o_10: "dbl_div (Num 837) (Num 10) = Num dbl_83_7"
  unfolding dbl_83_7_def
  using fl_near [of "837 / 10" 46 "5889863887670477"] by simp

lemma ev_lit_83_8: "fl (419 / 5) = Num dbl_83_8"
  unfolding dbl_83_8_def
  using fl_near [of "419 / 5" 46 "5896900762088243"] by simp

lemma ev_round_0: "Math_round (Num 0) = Num 0"
  by (simp add: floor_eq_iff)

lemma ev_add_0_o_120: "dbl_add (Num 0) (Num 120) = Num 120"
  using fl_near [of "120" 46 "8444249301319680"] by simp

lemma ev_add_120_o_51: "dbl_add (Num 120) (Num 51) = Num 171"
  using fl_near [of "171" 45 "6016527627190272"] by simp

lemma ev_div_171_o_2: "dbl_div (Num 171) (Num 2) = Num dbl_85_5"
  unfolding dbl_85_5_def
  using fl_near [of "171 / 2" 46 "6016527627190272"] by simp

lemma ev_round_85_5: "Math_round (Num dbl_85_5) = Num 86"
  unfolding dbl_85_5_def
  by (simp add: floor_eq_iff)

lemma ev_lit_0_91: "fl (91 / 100) = Num dbl_0_91"
  unfolding dbl_0_91_def
  using fl_near [of "91 / 100" 53 "8196551321814303"] by simp

lemma ev_lit_0_876: "fl (219 / 250) = Num dbl_0_876"
  unfolding dbl_0_876_def
  using fl_near [of "219 / 250" 53 "7890306547153109"] by simp

lemma ev_add_0_o_0_91: "dbl_add (Num 0) (Num dbl_0_91) = Num dbl_0_91"
  unfolding dbl_0_91_def
  using fl_near [of "8196551321814303 / 9007199254740992" 53 "8196551321814303"] by simp

lemma ev_add_0_91_o_0_876: "dbl_add (Num dbl_0_91) (Num dbl_0_876) = Num dbl_1_786"
  unfolding dbl_0_876_def dbl_0_91_def dbl_1_786_def
  using fl_near [of "4021714467241853 / 2251799813685248" 52 "8043428934483706"] by simp

lemma ev_div_1_786_o_2: "dbl_div (Num dbl_1_786) (Num 2) = Num dbl_0_893"
  unfolding dbl_0_893_def dbl_1_786_def
  using fl_near [of "4021714467241853 / 4503599627370496" 53 "8043428934483706"] by simp

lemma ev_mul_0_893_o_100: "dbl_mul (Num dbl_0_893) (Num 100) = Num dbl_89_3"
  unfolding dbl_0_893_def dbl_89_3_def
  using fl_near [of "100542861681046325 / 1125899906842624" 46 "6283928855065395"] by simp

lemma ev_mul_89_3_o_10: "dbl_mul (Num dbl_89_3) (Num 10) = Num 893"
  unfolding dbl_89_3_def
  using fl_near [of "31419644275326975 / 35184372088832" 43 "7854911068831744"] by simp

lemma ev_round_893: "Math_round (Num 893) = Num 893"
  by (simp add: floor_eq_iff)

lemma ev_div_893_o_10: "dbl_div (Num 893) (Num 10) = Num dbl_89_3"
  unfolding dbl_89_3_def
  using fl_near [of "893 / 10" 46 "6283928855065395"] by simp

lemma ev_mul_95_o_10: "dbl_mul (Num 95) (Num 10) = Num 950"
  using fl_near [of "950" 43 "8356288371097600"] by simp

lemma ev_round_950: "Math_round (Num 950) = Num 950"
  by (simp add: floor_eq_iff)

lemma ev_div_950_o_10: "dbl_div (Num 950) (Num 10) = Num 95"
  using fl_near [of "95" 46 "6685030696878080"] by simp

lemma ev_lit_0_95: "fl (19 / 20) = Num dbl_0_95"
  unfolding dbl_0_95_def
  using fl_near [of "19 / 20" 53 "8556839292003942"] by simp

lemma ev_lit_0_85: "fl (17 / 20) = Num dbl_0_85"
  unfolding dbl_0_85_def
  using fl_near [of "17 / 20" 53 "7656119366529843"] by simp

lemma ev_lit_0_7: "fl (7 / 10) = Num dbl_0_7"
  unfolding dbl_0_7_def
  using fl_near [of "7 / 10" 53 "6305039478318694"] by simp

lemma ev_lit_0_5: "fl (1 / 2) = Num dbl_0_5"
  unfolding dbl_0_5_def
  using fl_near [of "1 / 2" 53 "4503599627370496"] by simp

lemma ev_lit_0_01: "fl (1 / 100) = Num dbl_0_01"
  unfolding dbl_0_01_def
  using fl_near [of "1 / 100" 59 "5764607523034235"] by simp

lemma ev_lit_0_97: "fl (97 / 100) = Num dbl_0_97"
  unfolding dbl_0_97_def
  using fl_near [of "97 / 100" 53 "8736983277098762"] by simp

lemma ev_lit_0_576: "fl (72 / 125) = Num dbl_0_576"
  unfolding dbl_0_576_def
  using fl_near [of "72 / 125" 53 "5188146770730811"] by simp

lemma ev_lit_0_3: "fl (3 / 10) = Num dbl_0_3"
  unfolding dbl_0_3_def
  using fl_near [of "3 / 10" 54 "5404319552844595"] by simp

lemma ev_add_0_o_0_3: "dbl_add (Num 0) (Num dbl_0_3) = Num dbl_0_3"
  unfolding dbl_0_3_def
  using fl_near [of "5404319552844595 / 18014398509481984" 54 "5404319552844595"] by simp

lemma ev_add_0_3_o_0_7: "dbl_add (Num dbl_0_3) (Num dbl_0_7) = Num 1"
  unfolding dbl_0_3_def dbl_0_7_def
  using fl_tie [of "18014398509481983 / 18014398509481984" 53 "9007199254740992"] by simp

lemma ev_div_1_o_2: "dbl_div (Num 1) (Num 2) = Num dbl_0_5"
  unfolding dbl_0_5_def
  using fl_near [of "1 / 2" 53 "4503599627370496"] by simp

lemma ev_round_0_5: "Math_round (Num dbl_0_5) = Num 1"
  unfolding dbl_0_5_def
  by (simp add: floor_eq_iff)

lemma dbl_0_064_nz: "dbl_0_064 \<noteq> 0"
  by (simp add: dbl_0_064_def)

lemma dbl_0_128_nz: "dbl_0_128 \<noteq> 0"
  by (simp add: dbl_0_128_def)

lemma dbl_0_192_nz: "dbl_0_192 \<noteq> 0"
  by (simp add: dbl_0_192_def)

lemma dbl_0_256_nz: "dbl_0_256 \<noteq> 0"
  by (simp add: dbl_0_256_def)

lemma dbl_0_32_nz: "dbl_0_32 \<noteq> 0"
  by (simp add: dbl_0_32_def)

lemma dbl_0_384_nz: "dbl_0_384 \<noteq> 0"
  by (simp add: dbl_0_384_def)

lemma dbl_0_448_nz: "dbl_0_448 \<noteq> 0"
  by (simp add: dbl_0_448_def)

lemma dbl_0_512_nz: "dbl_0_512 \<noteq> 0"
  by (simp add: dbl_0_512_def)

lemma dbl_0_5760000000000001_nz: "dbl_0_5760000000000001 \<noteq> 0"
  by (simp add: dbl_0_5760000000000001_def)

lemma dbl_0_02_nz: "dbl_0_02 \<noteq> 0"
  by (simp add: dbl_0_02_def)

lemma dbl_0_03_nz: "dbl_0_03 \<noteq> 0"
  by (simp add: dbl_0_03_def)

lemma dbl_0_05_nz: "dbl_0_05 \<noteq> 0"
  by (simp add: dbl_0_05_def)

lemma dbl_0_078_nz: "dbl_0_078 \<noteq> 0"
  by (simp add: dbl_0_078_def)

lemma dbl_0_14200000000000002_nz: "dbl_0_14200000000000002 \<noteq> 0"
  by (simp add: dbl_0_14200000000000002_def)

lemma dbl_142_00000000000003_nz: "dbl_142_00000000000003 \<noteq> 0"
  by (simp add: dbl_142_00000000000003_def)

lemma dbl_0_1_nz: "dbl_0_1 \<noteq> 0"
  by (simp add: dbl_0_1_def)

lemma dbl_5_03_nz: "dbl_5_03 \<noteq> 0"
  by (simp add: dbl_5_03_def)

lemma dbl_m4_930000000000001_nz: "dbl_m4_930000000000001 \<noteq> 0"
  by (simp add: dbl_m4_930000000000001_def)

lemma dbl_m4930_000000000001_nz: "dbl_m4930_000000000001 \<noteq> 0"
  by (simp add: dbl_m4930_000000000001_def)

lemma dbl_0_9_nz: "dbl_0_9 \<noteq> 0"
  by (simp add: dbl_0_9_def)

lemma dbl_0_8_nz: "dbl_0_8 \<noteq> 0"
  by (simp add: dbl_0_8_def)

lemma dbl_1_8_nz: "dbl_1_8 \<noteq> 0"
  by (simp add: dbl_1_8_def)

lemma dbl_2_7_nz: "dbl_2_7 \<noteq> 0"
  by (simp add: dbl_2_7_def)

lemma dbl_3_5_nz: "dbl_3_5 \<noteq> 0"
  by (simp add: dbl_3_5_def)

lemma dbl_4_3_nz: "dbl_4_3 \<noteq> 0"
  by (simp add: dbl_4_3_def)

lemma dbl_5_1_nz: "dbl_5_1 \<noteq> 0"
  by (simp add: dbl_5_1_def)

lemma dbl_5_8999999999999995_nz: "dbl_5_8999999999999995 \<noteq> 0"
  by (simp add: dbl_5_8999999999999995_def)

lemma dbl_6_699999999999999_nz: "dbl_6_699999999999999 \<noteq> 0"
  by (simp add: dbl_6_699999999999999_def)

lemma dbl_0_8374999999999999_nz: "dbl_0_8374999999999999 \<noteq> 0"
  by (simp add: dbl_0_8374999999999999_def)

lemma dbl_83_74999999999999_nz: "dbl_83_74999999999999 \<noteq> 0"
  by (simp add: dbl_83_74999999999999_def)

lemma dbl_837_4999999999999_nz: "dbl_837_4999999999999 \<noteq> 0"
  by (simp add: dbl_837_4999999999999_def)

lemma dbl_83_7_nz: "dbl_83_7 \<noteq> 0"
  by (simp add: dbl_83_7_def)

lemma dbl_83_8_nz: "dbl_83_8 \<noteq> 0"
  by (simp add: dbl_83_8_def)

lemma dbl_85_5_nz: "dbl_85_5 \<noteq> 0"
  by (simp add: dbl_85_5_def)

lemma dbl_0_91_nz: "dbl_0_91 \<noteq> 0"
  by (simp add: dbl_0_91_def)

lemma dbl_0_876_nz: "dbl_0_876 \<noteq> 0"
  by (simp add: dbl_0_876_def)

lemma dbl_1_786_nz: "dbl_1_786 \<noteq> 0"
  by (simp add: dbl_1_786_def)

lemma dbl_0_893_nz: "dbl_0_893 \<noteq> 0"
  by (simp add: dbl_0_893_def)

lemma dbl_89_3_nz: "dbl_89_3 \<noteq> 0"
  by (simp add: dbl_89_3_def)

lemma dbl_0_95_nz: "dbl_0_95 \<noteq> 0"
  by (simp add: dbl_0_95_def)

lemma dbl_0_85_nz: "dbl_0_85 \<noteq> 0"
  by (simp add: dbl_0_85_def)

lemma dbl_0_7_nz: "dbl_0_7 \<noteq> 0"
  by (simp add: dbl_0_7_def)

lemma dbl_0_5_nz: "dbl_0_5 \<noteq> 0"
  by (simp add: dbl_0_5_def)

lemma dbl_0_01_nz: "dbl_0_01 \<noteq> 0"
  by (simp add: dbl_0_01_def)

lemma dbl_0_97_nz: "dbl_0_97 \<noteq> 0"
  by (simp add: dbl_0_97_def)

lemma dbl_95_5_nz: "dbl_95_5 \<noteq> 0"
  by (simp add: dbl_95_5_def)

lemma dbl_0_576_nz: "dbl_0_576 \<noteq> 0"
  by (simp add: dbl_0_576_def)

lemma dbl_0_3_nz: "dbl_0_3 \<noteq> 0"
  by (simp add: dbl_0_3_def)

lemmas dbl_nz =
  dbl_0_064_nz dbl_0_128_nz dbl_0_192_nz dbl_0_256_nz dbl_0_32_nz dbl_0_384_nz dbl_0_448_nz
  dbl_0_512_nz dbl_0_5760000000000001_nz dbl_0_02_nz dbl_0_03_nz dbl_0_05_nz dbl_0_078_nz
  dbl_0_14200000000000002_nz dbl_142_00000000000003_nz dbl_0_1_nz dbl_5_03_nz
  dbl_m4_930000000000001_nz dbl_m4930_000000000001_nz dbl_0_9_nz dbl_0_8_nz dbl_1_8_nz
  dbl_2_7_nz dbl_3_5_nz dbl_4_3_nz dbl_5_1_nz dbl_5_8999999999999995_nz
  dbl_6_699999999999999_nz dbl_0_8374999999999999_nz dbl_83_74999999999999_nz
  dbl_837_4999999999999_nz dbl_83_7_nz dbl_83_8_nz dbl_85_5_nz dbl_0_91_nz dbl_0_876_nz
  dbl_1_786_nz dbl_0_893_nz dbl_89_3_nz dbl_0_95_nz dbl_0_85_nz dbl_0_7_nz dbl_0_5_nz
  dbl_0_01_nz dbl_0_97_nz dbl_95_5_nz dbl_0_576_nz dbl_0_3_nz

lemmas dbl_ev =
  ev_div_1024_o_16000 ev_add_0_o_0_064 ev_add_0_064_o_0_064 ev_add_0_128_o_0_064
  ev_add_0_192_o_0_064 ev_add_0_256_o_0_064 ev_add_0_32_o_0_064 ev_add_0_384_o_0_064
  ev_add_0_448_o_0_064 ev_add_0_512_o_0_064 ev_lit_0_02 ev_lit_0_03 ev_add_0_02_o_0_03
  ev_sub_0_128_o_0_05 ev_mul_0_078_o_1000 ev_max0_78 ev_sub_0_192_o_0_05
  ev_mul_0_14200000000000002_o_1000 ev_max0_142_00000000000003 ev_mul_5_o_20
  ev_div_100_o_1000 ev_sub_0_1_o_0_05 ev_mul_0_05_o_1000 ev_max0_50 ev_add_5_o_0_03
  ev_sub_0_1_o_5_03 ev_mul_m4_930000000000001_o_1000 ev_max0_m4930_000000000001 ev_lit_0_9
  ev_lit_0_8 ev_add_0_o_0_9 ev_add_0_9_o_0_9 ev_add_1_8_o_0_9 ev_add_2_7_o_0_8
  ev_add_3_5_o_0_8 ev_add_4_3_o_0_8 ev_add_5_1_o_0_8 ev_add_5_8999999999999995_o_0_8
  ev_div_6_699999999999999_o_8 ev_mul_0_8374999999999999_o_100 ev_mul_83_74999999999999_o_10
  ev_round_837_4999999999999 ev_div_837_o_10 ev_lit_83_8 ev_round_0 ev_add_0_o_120
  ev_add_120_o_51 ev_div_171_o_2 ev_round_85_5 ev_lit_0_91 ev_lit_0_876 ev_add_0_o_0_91
  ev_add_0_91_o_0_876 ev_div_1_786_o_2 ev_mul_0_893_o_100 ev_mul_89_3_o_10 ev_round_893
  ev_div_893_o_10 ev_mul_95_o_10 ev_round_950 ev_div_950_o_10 ev_lit_0_95 ev_lit_0_85
  ev_lit_0_7 ev_lit_0_5 ev_lit_0_01 ev_lit_0_97 ev_lit_0_576 ev_lit_0_3 ev_add_0_o_0_3
  ev_add_0_3_o_0_7 ev_div_1_o_2 ev_round_0_5

section \<open>Store actions: frame properties\<close>

lemma spread_full_payload: "spread old (full_payload m) = m"
  by (simp add: spread_def full_payload_def)

text \<open>
  C10. For every store state and every payload, \<open>setActive\<close>, \<open>setConnectionStatus\<close> and
  \<open>updateMetrics\<close> each change their own field only (\<open>isActive\<close>, \<open>connectionStatus\<close>,
  \<open>metrics\<close>): the text, the results and the other two of these fields stay as they were.
  \<open>updateMetrics\<close> merges the payload over the previous metrics: each of the keys
  \<open>latency\<close>, \<open>accuracy\<close> and \<open>wordCount\<close> takes the value that the payload gives it, and
  keeps its previous value when the payload does not have the key; a payload with all three
  keys replaces the metrics.
\<close>

theorem store_actions_frame:
  "setActive b state = state\<lparr>s_isActive := b\<rparr>
   \<and> s_text (setActive b state) = s_text state
   \<and> results (setActive b state) = results state
   \<and> metrics (setActive b state) = metrics state
   \<and> connectionStatus (setActive b state) = connectionStatus state
   \<and> s_isActive (setActive b state) = b
   \<and> s_text (setConnectionStatus c state) = s_text state
   \<and> results (setConnectionStatus c state) = results state
   \<and> metrics (setConnectionStatus c state) = metrics state
   \<and> s_isActive (setConnectionStatus c state) = s_isActive state
   \<and> connectionStatus (setConnectionStatus c state) = c
   \<and> s_text (updateMetrics p state) = s_text state
   \<and> results (updateMetrics p state) = results state
   \<and> s_isActive (updateMetrics p state) = s_isActive state
   \<and> connectionStatus (updateMetrics p state) = connectionStatus state
   \<and> metrics (updateMetrics p state) = spread (metrics state) p
   \<and> metrics (updateMetrics (full_payload m) state) = m
   \<and> (p_latency p = Some l \<longrightarrow> m_latency (metrics (updateMetrics p state)) = l)
   \<and> (p_latency p = None \<longrightarrow>
        m_latency (metrics (updateMetrics p state)) = m_latency (metrics state))
   \<and> (p_accuracy p = Some a \<longrightarrow> accuracy (metrics (updateMetrics p state)) = a)
   \<and> (p_accuracy p = None \<longrightarrow>
        accuracy (metrics (updateMetrics p state)) = accuracy (metrics state))
   \<and> (p_wordCount p = Some n \<longrightarrow> wordCount (metrics (updateMetrics p state)) = n)
   \<and> (p_wordCount p = None \<longrightarrow>
        wordCount (metrics (updateMetrics p state)) = wordCount (metrics state))"
  by (simp add: setActive_def setConnectionStatus_def updateMetrics_def spread_full_payload)
    (simp add: spread_def)

theorem store_actions_frame_witness:
  "p_latency latency_accuracy_payload = Some (Num 120)
   \<and> p_accuracy latency_accuracy_payload = Some (Num dbl_95_5)
   \<and> p_wordCount latency_accuracy_payload = None
   \<and> wordCount (metrics store_with_metrics) = 5
   \<and> m_latency (metrics (updateMetrics latency_accuracy_payload store_with_metrics)) = Num 120
   \<and> accuracy (metrics (updateMetrics latency_accuracy_payload store_with_metrics))
       = Num dbl_95_5
   \<and> wordCount (metrics (updateMetrics latency_accuracy_payload store_with_metrics)) = 5
   \<and> results (updateMetrics latency_accuracy_payload store_with_metrics)
       = results store_with_metrics"
proof -
  have p: "p_latency latency_accuracy_payload = Some (Num 120)"
    "p_accuracy latency_accuracy_payload = Some (Num dbl_95_5)"
    "p_wordCount latency_accuracy_payload = None"
    by (simp_all add: latency_accuracy_payload_def)
  have w: "wordCount (metrics store_with_metrics) = 5"
    by (simp add: store_with_metrics_def)
  note t = store_actions_frame [where p = latency_accuracy_payload
      and state = store_with_metrics and l = "Num 120" and a = "Num dbl_95_5"]
  from t p have 1:
    "m_latency (metrics (updateMetrics latency_accuracy_payload store_with_metrics)) = Num 120"
    by blast
  from t p have 2:
    "accuracy (metrics (updateMetrics latency_accuracy_payload store_with_metrics))
       = Num dbl_95_5"
    by blast
  from t p have 3:
    "wordCount (metrics (updateMetrics latency_accuracy_payload store_with_metrics))
       = wordCount (metrics store_with_metrics)"
    by blast
  from t have 4: "results (updateMetrics latency_accuracy_payload store_with_metrics)
       = results store_with_metrics"
    by blast
  show ?thesis
    using p w 1 2 3 4 by simp
qed

section \<open>The accumulated text\<close>

lemma isWhiteSpace_space: "isWhiteSpace (CHR '' '')"
  by (simp add: isWhiteSpace_def)

lemma results_addResult: "results (addResult p st) = results st @ [p]"
  by (simp add: addResult_def Let_def)

lemma results_fold_addResult: "results (fold addResult ps st) = results st @ ps"
  by (induction ps arbitrary: st) (simp_all add: results_addResult)

lemma finalText_addResult_interim:
  "\<not> isFinal p \<Longrightarrow> finalText (addResult p st) = finalText st"
  by (simp add: finalText_def results_addResult)

text \<open>For a final result the displayed text is what the claim C5 says: the texts of the
  final results in arrival order, joined by spaces, trimmed.\<close>

lemma addResult_final_text:
  "isFinal p \<Longrightarrow>
     s_text (addResult p st) = trim (join (map rtext (filter isFinal (results st)) @ [rtext p]))
     \<and> s_text (addResult p st) = finalText (addResult p st)"
  by (simp add: addResult_def finalText_def Let_def)

text \<open>
  C5. After \<open>addResult\<close> of an interim result the displayed text should be the final text
  (the texts of the final results joined by spaces, trimmed) with the text of the interim
  result appended. The interim branch of \<open>addResult\<close> joins the final texts without the
  \<open>trim()\<close> that the final branch and \<open>finalText\<close> apply. With one final result of text
  \<open>'' hi''\<close> in the store, adding the interim result \<open>''x''\<close> displays \<open>'' hi x''\<close>, while
  the final text is \<open>''hi''\<close>: the displayed text is the final text neither with \<open>''x''\<close>
  nor with \<open>'' x''\<close> appended.
\<close>

theorem addResult_interim_untrimmed:
  "s_text (addResult interim_x (addResult final_hi initial_store)) = '' hi x''
   \<and> finalText (addResult interim_x (addResult final_hi initial_store)) = ''hi''
   \<and> s_text (addResult interim_x (addResult final_hi initial_store))
       \<noteq> finalText (addResult interim_x (addResult final_hi initial_store)) @ rtext interim_x
   \<and> s_text (addResult interim_x (addResult final_hi initial_store))
       \<noteq> finalText (addResult interim_x (addResult final_hi initial_store)) @ '' ''
           @ rtext interim_x"
  by (simp add: addResult_def finalText_def final_hi_def interim_x_def initial_store_def
      trim_def isWhiteSpace_def)

section \<open>Metrics\<close>

lemma foldl_add_sum_list: "foldl (\<lambda>acc x. acc + f x) a xs = a + sum_list (map f xs)"
  for a :: "'a::monoid_add"
  by (induction xs arbitrary: a) (simp_all add: add.assoc)

lemma count_tokens_dropWhile:
  "count_tokens False (dropWhile isWhiteSpace cs) = count_tokens False cs"
  by (induction cs) simp_all

lemma split_from_count:
  "length (filter (\<lambda>word. length word > 0) (split_from cur s))
     = (if cur = [] then 0 else 1) + count_tokens (cur \<noteq> []) s"
  by (induction cur s rule: split_from.induct) (simp_all add: count_tokens_dropWhile)

lemma split_ws_count:
  "length (filter (\<lambda>word. length word > 0) (split_ws s)) = count_tokens False s"
  unfolding split_ws_def split_from_count by simp

lemma latencies_eq:
  "map (\<lambda>r. the (latency r))
       (filter (\<lambda>r. latency r \<noteq> None \<and> dbl_gt (the (latency r)) (Num 0)) rs)
     = positive_latencies rs"
  by (induction rs) (auto split: option.splits)

lemma confidences_eq:
  "map (\<lambda>r. the (confidence r)) (filter (\<lambda>r. confidence r \<noteq> None) rs)
     = present_confidences rs"
  by (induction rs) (auto split: option.splits)

lemma dbl_0_3_pos: "0 < dbl_0_3"
  by (simp add: dbl_0_3_def)

lemma dbl_0_7_pos: "0 < dbl_0_7"
  by (simp add: dbl_0_7_def)

lemma Math_round_nearest:
  "\<exists>k. Math_round (Num x) = Num (of_int k) \<and> \<bar>of_int k - x\<bar> \<le> 1 / 2"
proof -
  have "\<bar>of_int \<lfloor>x + 1 / 2\<rfloor> - x\<bar> \<le> 1 / 2" by linarith
  then show ?thesis by auto
qed

text \<open>
  C4, as the claim states it, fails: the sums, the means and the products are rounded to
  doubles at every step. For eight final results whose confidences are the doubles 0.9,
  0.9, 0.9, 0.8, 0.8, 0.8, 0.8, 0.8, \<open>calculateMetrics\<close> returns the accuracy 83.7,
  while the mean of these eight confidences, times 100, lies above 83.75 and is 83.8 when
  rounded to one decimal place. For two final results whose latencies are the doubles 0.3
  and 0.7, it returns the latency 1, while the mean of the two latencies lies below one
  half, and the nearest integer is 0.
\<close>

theorem calculateMetrics_counterexample:
  "accuracy (calculateMetrics eight_finals) = Num dbl_83_7
   \<and> present_confidences (filter isFinal eight_finals)
       = [Num dbl_0_9, Num dbl_0_9, Num dbl_0_9, Num dbl_0_8, Num dbl_0_8, Num dbl_0_8,
          Num dbl_0_8, Num dbl_0_8]
   \<and> round1 (mean [dbl_0_9, dbl_0_9, dbl_0_9, dbl_0_8, dbl_0_8, dbl_0_8, dbl_0_8, dbl_0_8]
        * 100) = 838 / 10
   \<and> fl (838 / 10) = Num dbl_83_8
   \<and> dbl_83_7 < dbl_83_8
   \<and> m_latency (calculateMetrics two_finals) = Num 1
   \<and> positive_latencies (filter isFinal two_finals) = [Num dbl_0_3, Num dbl_0_7]
   \<and> mean [dbl_0_3, dbl_0_7] < 1 / 2
   \<and> \<lfloor>mean [dbl_0_3, dbl_0_7] + 1 / 2\<rfloor> = 0"
proof -
  have 1: "accuracy (calculateMetrics eight_finals) = Num dbl_83_7"
    by (simp add: calculateMetrics_def eight_finals_def final_with_def Let_def dbl_ev
        del: dbl_add.simps dbl_mul.simps dbl_div.simps Math_round.simps)
  have 2: "present_confidences (filter isFinal eight_finals)
       = [Num dbl_0_9, Num dbl_0_9, Num dbl_0_9, Num dbl_0_8, Num dbl_0_8, Num dbl_0_8,
          Num dbl_0_8, Num dbl_0_8]"
    by (simp add: eight_finals_def final_with_def)
  have 3: "round1 (mean [dbl_0_9, dbl_0_9, dbl_0_9, dbl_0_8, dbl_0_8, dbl_0_8, dbl_0_8,
        dbl_0_8] * 100) = 838 / 10"
    by (simp add: round1_def mean_def dbl_0_9_def dbl_0_8_def floor_eq_iff)
  have 4: "dbl_83_7 < dbl_83_8"
    by (simp add: dbl_83_7_def dbl_83_8_def)
  have 5: "m_latency (calculateMetrics two_finals) = Num 1"
    by (simp add: calculateMetrics_def two_finals_def Let_def dbl_ev dbl_0_3_pos dbl_0_7_pos
        del: dbl_add.simps dbl_mul.simps dbl_div.simps Math_round.simps)
  have 6: "positive_latencies (filter isFinal two_finals) = [Num dbl_0_3, Num dbl_0_7]"
    by (simp add: two_finals_def dbl_0_3_pos dbl_0_7_pos)
  have 7: "mean [dbl_0_3, dbl_0_7] < 1 / 2"
    by (simp add: mean_def dbl_0_3_def dbl_0_7_def)
  have 8: "\<lfloor>mean [dbl_0_3, dbl_0_7] + 1 / 2\<rfloor> = 0"
    by (simp add: mean_def dbl_0_3_def dbl_0_7_def floor_eq_iff)
  show ?thesis
    using 1 2 3 4 5 6 7 8 ev_lit_83_8 by simp
qed

text \<open>
  C4, amended. \<open>calculateMetrics\<close> looks at the final results only. When there is none it
  returns latency 0, accuracy 0 and word count 0. Otherwise the latency is \<open>Math.round\<close>
  of the mean of the latency fields that are present and positive, and 0 when there is
  none; the accuracy is \<open>Math.round(m * 100 * 10) / 10\<close> for the mean \<open>m\<close> of the confidence
  fields that are present, and 95 when there is none; the word count is the total number
  of tokens, separated by white space, of the final texts. The means are those of
  JavaScript's arithmetic: the sum is accumulated from 0 in arrival order, and every
  addition, product and quotient is rounded to the nearest double.
\<close>

theorem calculateMetrics_spec:
  "calculateMetrics rs =
     (let finals = filter isFinal rs;
          lats = positive_latencies finals;
          confs = present_confidences finals
      in if finals = [] then \<lparr>m_latency = Num 0, accuracy = Num 0, wordCount = 0\<rparr>
         else \<lparr>m_latency = (if lats = [] then Num 0 else Math_round (dbl_mean lats)),
               accuracy = (if confs = [] then Num 95
                           else dbl_div
                                  (Math_round (dbl_mul (dbl_mul (dbl_mean confs) (Num 100))
                                     (Num 10)))
                                  (Num 10)),
               wordCount = sum_list (map (\<lambda>r. count_tokens False (rtext r)) finals)\<rparr>)"
proof -
  have r0: "Math_round (Num 0) = Num 0"
    by simp
  have r95: "dbl_div (Math_round (dbl_mul (Num 95) (Num 10))) (Num 10) = Num 95"
    unfolding ev_mul_95_o_10 ev_round_950 ev_div_950_o_10 ..
  have sum: "foldl (\<lambda>sum lat. dbl_add sum lat) (Num 0) xs = dbl_sum xs" for xs
    by (simp add: dbl_sum_def)
  have words:
    "foldl (\<lambda>acc r. acc + length (filter (\<lambda>word. length word > 0) (split_ws (rtext r)))) 0 xs
       = sum_list (map (\<lambda>r. count_tokens False (rtext r)) xs)"
    for xs :: "TranscriptionResult list"
    unfolding split_ws_count using foldl_add_sum_list [where a = "0::nat"] by simp
  show ?thesis
    unfolding calculateMetrics_def Let_def latencies_eq confidences_eq sum words
    by (simp add: dbl_mean_def r0 r95
        del: dbl_add.simps dbl_mul.simps dbl_div.simps Math_round.simps)
qed

theorem calculateMetrics_spec_witness:
  "calculateMetrics [r_quick, r_brown, r_fox, r_silent]
     = \<lparr>m_latency = Num 86, accuracy = Num dbl_89_3, wordCount = 5\<rparr>
   \<and> calculateMetrics [r_brown] = \<lparr>m_latency = Num 0, accuracy = Num 0, wordCount = 0\<rparr>
   \<and> calculateMetrics [r_silent] = \<lparr>m_latency = Num 0, accuracy = Num 95, wordCount = 1\<rparr>"
  using calculateMetrics_spec [of "[r_quick, r_brown, r_fox, r_silent]"]
    calculateMetrics_spec [of "[r_brown]"] calculateMetrics_spec [of "[r_silent]"]
  by (simp add: r_quick_def r_fox_def r_brown_def r_silent_def dbl_mean_def dbl_sum_def
      isWhiteSpace_def dbl_ev
      del: dbl_add.simps dbl_mul.simps dbl_div.simps Math_round.simps)

section \<open>Cleaning the chunk timestamps\<close>

lemma cleanup_loop_filter:
  "cleanup_loop c es m = filter (\<lambda>(k, v). \<not> (\<exists>t. (k, t) \<in> set es \<and> t < c)) m"
proof (induction es arbitrary: m)
  case Nil
  then show ?case by simp
next
  case (Cons e es)
  obtain k t where e: "e = (k, t)" by (cases e)
  show ?case
    unfolding e using Cons.IH
    by (auto simp: map_delete_def intro!: filter_cong)
qed

text \<open>
  C9. After \<open>cleanupOldTimestamps\<close> at time \<open>now\<close>, every timestamp left in the map is at
  least \<open>now - 10000\<close>. The cleanup adds no entry, and it keeps every entry that is recent
  enough and the only one of its chunk id.
\<close>

theorem cleanupOldTimestamps_recent:
  "(\<forall>(chunkId, ts) \<in> set (cleanupOldTimestamps now m). now - 10000 \<le> ts)
   \<and> set (cleanupOldTimestamps now m) \<subseteq> set m
   \<and> (\<forall>(chunkId, ts) \<in> set m.
         now - 10000 \<le> ts \<and> (\<forall>t. (chunkId, t) \<in> set m \<longrightarrow> t = ts)
         \<longrightarrow> (chunkId, ts) \<in> set (cleanupOldTimestamps now m))"
  unfolding cleanupOldTimestamps_def Let_def cleanup_loop_filter
  by (auto simp: not_less)

theorem cleanupOldTimestamps_recent_witness:
  "cleanupOldTimestamps 12500 [(0, 100), (1, 5000), (2, 12000)] = [(1, 5000), (2, 12000)]
   \<and> (1, 5000) \<in> set (cleanupOldTimestamps 12500 [(0, 100), (1, 5000), (2, 12000)])"
  using cleanupOldTimestamps_recent [of 12500 "[(0, 100), (1, 5000), (2, 12000)]"]
  by (simp add: cleanupOldTimestamps_def map_delete_def)

section \<open>Audio activity\<close>

lemma count_activity_eq: "count_activity bs a = a + length (filter (\<lambda>x. 10 < unat x) bs)"
  by (induction bs arbitrary: a) simp_all

lemma sum_squares_eq: "sum_squares xs a = a + sum_list (map (\<lambda>x. x * x) (map sint xs))"
  by (induction xs arbitrary: a) simp_all

lemma length_int16_of_bytes: "length (int16_of_bytes b) = length b div 2"
  by (induction b rule: int16_of_bytes.induct) simp_all

lemma sqrt_gt_500: "500 < sqrt x \<longleftrightarrow> 250000 < x"
proof -
  have "sqrt 250000 = 500"
    by (rule real_sqrt_unique) simp_all
  then show ?thesis
    using real_sqrt_less_iff [of 250000 x] by simp
qed

lemma js_gt_sqrt: "0 \<le> t \<Longrightarrow> js_gt (js_sqrt (Num x)) t = (t < sqrt x)"
proof (cases "x < 0")
  case True
  assume "0 \<le> t"
  moreover from True have "sqrt x < 0" by simp
  ultimately have "\<not> t < sqrt x" by linarith
  with True show ?thesis by simp
next
  case False
  then show ?thesis by simp
qed

lemma detect_never_throws: "detectAudioActivity_try b \<noteq> Inl e"
  by (auto simp: detectAudioActivity_try_def new_Int16Array_def split: sum.splits)

lemma detect_even:
  assumes "0 < length b" "even (length b)"
  shows "detectAudioActivity b = (500 < rms (samples16 b))"
proof -
  have n: "length (int16_of_bytes b) \<noteq> 0"
  proof -
    obtain k where k: "length b = 2 * k" using assms(2) by (auto elim: evenE)
    with assms(1) have "0 < k" by simp
    with k show ?thesis by (simp add: length_int16_of_bytes)
  qed
  show ?thesis
    using assms n
    by (simp add: detectAudioActivity_def detectAudioActivity_try_def new_Int16Array_def
        js_div_def sum_squares_eq rms_def samples16_def js_gt_sqrt del: js_sqrt.simps
        flip: even_iff_mod_2_eq_zero)
qed

lemma detect_odd:
  assumes "odd (length b)"
  shows "detectAudioActivity b = (1 / 10 < active_fraction b)"
proof -
  have "length b \<noteq> 0" using assms by (cases b) auto
  then show ?thesis
    using assms
    by (simp add: detectAudioActivity_def detectAudioActivity_try_def js_div_def
        count_activity_eq active_fraction_def odd_iff_mod_2_eq_one)
qed

lemma detect_empty: "\<not> detectAudioActivity []"
  by (simp add: detectAudioActivity_def detectAudioActivity_try_def js_div_def)

text \<open>
  C8. For a buffer whose byte length is positive and even, \<open>detectAudioActivity\<close> is true
  exactly when the root mean square of the buffer, read as 16-bit signed samples, exceeds
  500. For a buffer of odd byte length it is true exactly when the fraction of its bytes
  above 10 exceeds one tenth. The empty buffer has no activity. The body of the \<open>try\<close>
  block never throws, and the \<open>catch\<close> block answers whether the buffer has data.
\<close>

theorem detectAudioActivity_spec:
  "(0 < length b \<and> even (length b) \<longrightarrow> detectAudioActivity b = (500 < rms (samples16 b)))
   \<and> (odd (length b) \<longrightarrow> detectAudioActivity b = (1 / 10 < active_fraction b))
   \<and> \<not> detectAudioActivity []
   \<and> (\<forall>e. detectAudioActivity_try b \<noteq> Inl e)
   \<and> detectAudioActivity_catch b = (0 < length b)"
  using detect_even [of b] detect_odd [of b] detect_empty detect_never_throws [of b]
  by (simp add: detectAudioActivity_catch_def)

theorem detectAudioActivity_spec_witness:
  "0 < length [0x10, 0x27, 0xF0, 0xD8 :: 8 word] \<and> even (length [0x10, 0x27, 0xF0, 0xD8 :: 8 word])
   \<and> samples16 [0x10, 0x27, 0xF0, 0xD8] = [10000, - 10000]
   \<and> detectAudioActivity [0x10, 0x27, 0xF0, 0xD8]
   \<and> \<not> detectAudioActivity [1, 0, 0xFF, 0xFF]
   \<and> odd (length [1, 200, 3 :: 8 word]) \<and> detectAudioActivity [1, 200, 3]
   \<and> \<not> detectAudioActivity [1, 2, 3, 4, 5, 6, 7, 8, 9, 10, 11]"
  using detectAudioActivity_spec [of "[0x10, 0x27, 0xF0, 0xD8]"]
    detectAudioActivity_spec [of "[1, 0, 0xFF, 0xFF]"]
    detectAudioActivity_spec [of "[1, 200, 3]"]
    detectAudioActivity_spec [of "[1, 2, 3, 4, 5, 6, 7, 8, 9, 10, 11]"]
  by (simp add: rms_def samples16_def sqrt_gt_500 active_fraction_def)

section \<open>The audio cursor\<close>

lemma is_double_0: "is_double 0"
  by (simp add: is_double_def)

lemma js_le_refl: "good x \<Longrightarrow> js_le x x"
  by (cases x) simp_all

lemma js_le_trans: "js_le x y \<Longrightarrow> js_le y z \<Longrightarrow> js_le x z"
  by (cases x; cases y; cases z) simp_all

lemma good_add:
  assumes "good a" "good b"
  shows "good (dbl_add a b)" and "js_le a (dbl_add a b)"
proof -
  show "good (dbl_add a b)"
    using assms by (cases a; cases b) (simp_all add: fl_good)
  show "js_le a (dbl_add a b)"
  proof (cases a)
    case (Num r)
    note a = this
    show ?thesis
    proof (cases b)
      case (Num t)
      from assms a Num have r: "0 \<le> r" "is_double r" and t: "0 \<le> t" by simp_all
      show ?thesis
      proof (cases "r = 0")
        case True
        from fl_good [of t] t have "good (fl t)" by simp
        then have "js_le (Num 0) (fl t)" by (cases "fl t") simp_all
        with True a Num show ?thesis by simp
      next
        case False
        with r have "0 < r" by simp
        from fl_above [OF this r(2), of "r + t"] t a Num show ?thesis by simp
      qed
    qed (use assms a in simp_all)
  qed (use assms in \<open>cases b; simp\<close>)+
qed

lemma good_foldl:
  "good a \<Longrightarrow> (\<And>d. d \<in> set ds \<Longrightarrow> good d) \<Longrightarrow>
     good (foldl dbl_add a ds) \<and> js_le a (foldl dbl_add a ds)"
proof (induction ds arbitrary: a)
  case Nil
  then show ?case by (simp add: js_le_refl)
next
  case (Cons d ds)
  have d: "good d" using Cons.prems(2) by simp
  have g: "good (dbl_add a d)" and l: "js_le a (dbl_add a d)"
    using good_add [OF Cons.prems(1) d] by blast+
  from Cons.IH [OF g] Cons.prems(2)
  have "good (foldl dbl_add (dbl_add a d) ds)"
    and "js_le (dbl_add a d) (foldl dbl_add (dbl_add a d) ds)"
    by simp_all
  with l show ?case by (auto intro: js_le_trans)
qed

lemma advances_good: "d \<in> set (advances evs) \<Longrightarrow> good d"
  by (induction evs rule: advances.induct) (auto simp: fl_good)

lemma step_buffer:
  "audioCursor (onaudioprocess now inputBuffer s)
     = (if streaming s
        then dbl_add (audioCursor s) (dbl_div (Num (real (length inputBuffer))) (Num 16000))
        else audioCursor s)"
  "streaming (onaudioprocess now inputBuffer s) = streaming s"
  by (auto simp: streaming_def onaudioprocess_def Let_def d_call_def
      simp del: dbl_add.simps dbl_div.simps)

lemma step_transcript:
  "audioCursor (handleTranscriptResult now data s) = audioCursor s"
  "streaming (handleTranscriptResult now data s) = streaming s"
  by (auto simp: streaming_def handleTranscriptResult_def Let_def d_act_def
      split: option.splits)

lemma step_listeners:
  "audioCursor (d_on_open s) = audioCursor s" "streaming (d_on_open s) = streaming s"
  "audioCursor (d_on_error s) = audioCursor s" "streaming (d_on_error s) = streaming s"
  "audioCursor (d_on_close s) = audioCursor s" "\<not> streaming (d_on_close s)"
  by (simp_all add: streaming_def d_on_open_def d_on_error_def d_on_close_def d_act_def)

lemma step_stop:
  "audioCursor (d_stopTranscription s) = audioCursor s" "\<not> streaming (d_stopTranscription s)"
  by (auto simp: streaming_def d_stopTranscription_def Let_def d_act_def d_call_def
      split: option.splits)

lemma cursor_run:
  "audioCursor (d_run evs s)
     = (if streaming s then foldl dbl_add (audioCursor s) (advances evs) else audioCursor s)"
proof (induction evs arbitrary: s)
  case Nil
  then show ?case by (simp add: d_run_def)
next
  case (Cons e evs)
  have run: "d_run (e # evs) s = d_run evs (d_event_step e s)"
    by (simp add: d_run_def)
  show ?case
    unfolding run Cons.IH
    by (cases e)
      (simp_all add: step_buffer step_transcript step_listeners step_stop
        del: dbl_add.simps dbl_div.simps)
qed

lemma start_streaming:
  "streaming (snd (d_startTranscription now ms False False s0))
   \<and> audioCursor (snd (d_startTranscription now ms False False s0)) = Num 0"
  by (simp add: d_startTranscription_def d_startAudioStreaming_def Let_def streaming_def
      d_call_def d_act_def zero_jsnum_def)

lemma start_failed:
  "\<not> streaming (snd (d_startTranscription now ms False True s0))
   \<and> audioCursor (snd (d_startTranscription now ms False True s0)) = Num 0"
  by (simp add: d_startTranscription_def d_startAudioStreaming_def d_catch_def Let_def
      streaming_def d_call_def d_act_def zero_jsnum_def)

lemma length_buffers: "length signal = 1024" "length silence = 1024"
  by (simp_all add: signal_def silence_def)

text \<open>
  C6, as the claim states it, fails: every addition to the cursor is rounded to a double.
  After nine buffers of 1024 samples, each of the duration \<open>1024 / 16000\<close>, which is the
  double 0.064, the cursor is 0.5760000000000001. That is more than the sum of the nine
  durations, and more than the double nearest to nine times \<open>1024 / 16000\<close>, which is
  0.576.
\<close>

theorem audioCursor_counterexample:
  "audioCursor (d_run nine_buffers d_started) = Num dbl_0_5760000000000001
   \<and> advances nine_buffers
       = [Num dbl_0_064, Num dbl_0_064, Num dbl_0_064, Num dbl_0_064, Num dbl_0_064,
          Num dbl_0_064, Num dbl_0_064, Num dbl_0_064, Num dbl_0_064]
   \<and> 9 * dbl_0_064 < dbl_0_5760000000000001
   \<and> fl (9 * (1024 / 16000)) = Num dbl_0_576
   \<and> dbl_0_576 < dbl_0_5760000000000001"
proof -
  have a: "advances nine_buffers
       = [Num dbl_0_064, Num dbl_0_064, Num dbl_0_064, Num dbl_0_064, Num dbl_0_064,
          Num dbl_0_064, Num dbl_0_064, Num dbl_0_064, Num dbl_0_064]"
    by (simp add: nine_buffers_def length_buffers dbl_ev del: dbl_div.simps)
  have c: "audioCursor (d_run nine_buffers d_started) = Num dbl_0_5760000000000001"
    unfolding cursor_run a d_started_def
    by (simp add: start_streaming dbl_ev del: dbl_add.simps)
  have 1: "9 * dbl_0_064 < dbl_0_5760000000000001"
    by (simp add: dbl_0_064_def dbl_0_5760000000000001_def)
  have 2: "dbl_0_576 < dbl_0_5760000000000001"
    by (simp add: dbl_0_576_def dbl_0_5760000000000001_def)
  have 3: "fl (9 * (1024 / 16000)) = Num dbl_0_576"
    using ev_lit_0_576 by simp
  show ?thesis
    using a c 1 2 3 by simp
qed

text \<open>
  C6, amended. A successful \<open>startTranscription\<close> sets the audio cursor to 0. After any
  sequence of events that follows it (buffers of samples, transcripts, \<open>Open\<close>, \<open>Error\<close>
  and \<open>Close\<close> events and calls of \<open>stopTranscription\<close>, in any order) the cursor is the
  sum, in JavaScript's arithmetic, of the durations of the buffers accepted so far: the
  buffers before the first \<open>Close\<close> event or call of \<open>stopTranscription\<close>, each of the
  duration \<open>length / 16000\<close> rounded to a double, added from 0 in arrival order with every
  addition rounded to the nearest double. The cursor never decreases: after a prefix of
  the events it is at most what it is after more of them. When the start fails after it
  has set the cursor to 0 (the audio context cannot be created), the service is not active
  and the cursor is 0 after any such sequence of events. (The service \<open>s0\<close> that is
  started is in any state: a further \<open>startTranscription\<close> sets the cursor to 0 again and
  begins another sequence.)
\<close>

theorem audioCursor_sum:
  "audioCursor (d_run evs (snd (d_startTranscription now ms False False s0)))
     = dbl_sum (advances evs)
   \<and> js_le (audioCursor (d_run evs (snd (d_startTranscription now ms False False s0))))
       (audioCursor (d_run (evs @ later) (snd (d_startTranscription now ms False False s0))))
   \<and> audioCursor (d_run evs (snd (d_startTranscription now ms False True s0))) = Num 0"
proof -
  let ?s = "snd (d_startTranscription now ms False False s0)"
  have s: "streaming ?s" and c: "audioCursor ?s = Num 0"
    using start_streaming by blast+
  have sum: "audioCursor (d_run evs ?s) = dbl_sum (advances evs)"
    unfolding cursor_run dbl_sum_def using s c by simp
  have g0: "good (Num 0)"
    by (simp add: is_double_0)
  have g: "good (audioCursor (d_run evs ?s))"
    unfolding sum dbl_sum_def using good_foldl [OF g0, of "advances evs"] advances_good
    by blast
  have app: "d_run (evs @ later) ?s = d_run later (d_run evs ?s)"
    by (simp add: d_run_def)
  have "js_le (audioCursor (d_run evs ?s)) (audioCursor (d_run later (d_run evs ?s)))"
    unfolding cursor_run [of later]
    using good_foldl [OF g, of "advances later"] advances_good js_le_refl [OF g]
    by auto
  moreover have "audioCursor (d_run evs (snd (d_startTranscription now ms False True s0)))
      = Num 0"
    unfolding cursor_run using start_failed by simp
  ultimately show ?thesis
    using sum app by simp
qed

theorem audioCursor_sum_witness:
  "audioCursor (d_run closed_between (snd (d_startTranscription 900 Handle False False d_idle)))
     = Num dbl_0_064
   \<and> advances closed_between = [Num dbl_0_064]
   \<and> advances (closed_between @ [AudioProcess 1128 signal]) = [Num dbl_0_064]
   \<and> audioCursor (d_run (closed_between @ [AudioProcess 1128 signal])
        (snd (d_startTranscription 900 Handle False False d_idle))) = Num dbl_0_064
   \<and> audioCursor (d_run closed_between (snd (d_startTranscription 900 Handle False True d_idle)))
       = Num 0"
proof -
  have a: "advances closed_between = [Num dbl_0_064]"
    "advances (closed_between @ [AudioProcess 1128 signal]) = [Num dbl_0_064]"
    by (simp_all add: closed_between_def length_buffers dbl_ev del: dbl_div.simps)
  have s: "dbl_sum [Num dbl_0_064] = Num dbl_0_064"
    by (simp add: dbl_sum_def dbl_ev del: dbl_add.simps)
  from audioCursor_sum [of closed_between 900 Handle d_idle "[]"]
    audioCursor_sum [of "closed_between @ [AudioProcess 1128 signal]" 900 Handle d_idle "[]"]
  show ?thesis
    unfolding a s using a by simp
qed

section \<open>Latency of a result\<close>

lemma v_connected_simps:
  "v_connected = \<lparr>socket = Some True,
     v_store = \<lparr>s_text = [], results = [], metrics = zero_metrics, s_isActive = True,
       connectionStatus = connected\<rparr>,
     v_isActive = True, v_isConnecting = False, onTranscription = Some StoreAddResult,
     startTime = 900, v_results = [], v_mediaRecorder = None, v_stream = None,
     v_audioChunkTimestamps = [], v_currentUtteranceStart = 0,
     v_audioActivityDetected = False, v_chunkCounter = 0, v_effects = [SocketOpen]\<rparr>"
  by (simp add: v_connected_def v_on_connect_def v_startTranscription_def v_idle_def Let_def
      v_act_def v_call_def setActive_def setConnectionStatus_def initial_store_def)

lemma length_opus_chunk: "length opus_chunk = 120"
  by (simp add: opus_chunk_def)

lemma v_chunk_streaming:
  "socket s = Some True \<Longrightarrow> v_isActive s \<Longrightarrow> v_chunkCounter s mod 20 \<noteq> 0 \<Longrightarrow>
   v_chunkCounter s \<notin> fst ` set (v_audioChunkTimestamps s) \<Longrightarrow>
   v_chunk now opus_chunk s =
     s\<lparr>v_chunkCounter := v_chunkCounter s + 1,
       v_audioChunkTimestamps := v_audioChunkTimestamps s @ [(v_chunkCounter s, now)],
       v_currentUtteranceStart :=
         (if v_audioActivityDetected s then v_currentUtteranceStart s else now),
       v_audioActivityDetected := True,
       v_effects := v_effects s @ [SocketEmitAudio opus_chunk]\<rparr>"
  by (simp add: v_chunk_def v_on_buffer_def v_ondataavailable_def Let_def length_opus_chunk
      map_set_def v_call_def)

lemma v_streaming_simps:
  "v_streaming = \<lparr>socket = Some True,
     v_store = \<lparr>s_text = [], results = [], metrics = zero_metrics, s_isActive = True,
       connectionStatus = connected\<rparr>,
     v_isActive = True, v_isConnecting = False, onTranscription = Some StoreAddResult,
     startTime = 900, v_results = [], v_mediaRecorder = Some recording,
     v_stream = Some Handle,
     v_audioChunkTimestamps = [(0, 1000), (1, 1020), (2, 1040), (3, 1060), (4, 1080)],
     v_currentUtteranceStart = 1000, v_audioActivityDetected = True, v_chunkCounter = 5,
     v_effects = [SocketOpen, RecorderStart, SocketEmitAudio opus_chunk,
       SocketEmitAudio opus_chunk, SocketEmitAudio opus_chunk, SocketEmitAudio opus_chunk,
       SocketEmitAudio opus_chunk]\<rparr>"
proof -
  have s0: "snd (v_startAudioStreaming Handle False
        (v_on_connect (v_startTranscription 900 False v_idle)))
      = v_connected\<lparr>v_mediaRecorder := Some recording, v_stream := Some Handle,
          v_effects := [SocketOpen, RecorderStart]\<rparr>"
    unfolding v_connected_def [symmetric]
    by (simp add: v_startAudioStreaming_def Let_def v_call_def v_connected_simps)
  have c0: "v_chunk 1000 opus_chunk (v_connected\<lparr>v_mediaRecorder := Some recording,
        v_stream := Some Handle, v_effects := [SocketOpen, RecorderStart]\<rparr>)
      = v_connected\<lparr>v_mediaRecorder := Some recording, v_stream := Some Handle,
          v_chunkCounter := 1, v_audioChunkTimestamps := [(0, 1000)],
          v_currentUtteranceStart := 1000, v_audioActivityDetected := True,
          v_effects := [SocketOpen, RecorderStart, SocketEmitAudio opus_chunk]\<rparr>"
    by (simp add: v_chunk_def v_on_buffer_def v_ondataavailable_def Let_def length_opus_chunk
        map_set_def v_call_def v_connected_simps cleanupOldTimestamps_def map_delete_def)
  show ?thesis
    unfolding v_streaming_def s0 c0
    by (simp add: v_chunk_streaming v_connected_simps)
qed

lemma trim_nonempty: "trim s \<noteq> [] \<Longrightarrow> s \<noteq> []"
  by (auto simp: trim_def)

lemma hd_rev_sort_Max:
  assumes "rev (sort xs) = t # ts"
  shows "t = Max (set xs)"
proof -
  from assms have s: "sort xs = rev ts @ [t]"
    by (metis rev.simps(2) rev_rev_ident)
  have "sorted (sort xs)" by simp
  then have "sorted (rev ts @ [t])" unfolding s .
  then have le: "\<forall>x \<in> set (rev ts @ [t]). x \<le> t"
    by (auto simp: sorted_append)
  have "set (sort xs) = set xs" by simp
  then have "set xs = set (rev ts @ [t])" unfolding s by simp
  then show ?thesis
    using le by (auto intro!: Max_eqI [symmetric])
qed
lemma v_calculatedLatency_eq:
  "v_calculatedLatency now s =
     (if 0 < v_currentUtteranceStart s then now - v_currentUtteranceStart s
      else if recent_chunks now s = {} then 0
      else now - Max (recent_chunks now s))"
proof -
  let ?xs = "filter (\<lambda>ts. ts > now - 3000) (map snd (v_audioChunkTimestamps s))"
  have set: "set ?xs = recent_chunks now s"
    by (auto simp: recent_chunks_def)
  show ?thesis
  proof (cases "rev (sort ?xs)")
    case Nil
    then have "?xs = []" by (metis rev_is_Nil_conv set_empty set_sort)
    with set have "recent_chunks now s = {}" by simp
    with Nil show ?thesis
      by (simp add: v_calculatedLatency_def Let_def)
  next
    case (Cons t ts)
    from hd_rev_sort_Max [OF Cons] have t: "t = Max (recent_chunks now s)"
      unfolding set .
    have "t \<in> set (rev (sort ?xs))" using Cons by simp
    then have "t \<in> set ?xs" by simp
    then have "t \<in> recent_chunks now s" unfolding set .
    then have ne: "recent_chunks now s \<noteq> {}" by blast
    then have "v_audioChunkTimestamps s \<noteq> []" by (auto simp: recent_chunks_def)
    with Cons t ne show ?thesis
      by (simp add: v_calculatedLatency_def Let_def)
  qed
qed

lemma v_last_result:
  "trim (e_text ev) \<noteq> [] \<Longrightarrow>
     last (v_results (snd (handleSpeechResult now ev s))) = v_result now ev s"
  by (auto simp: handleSpeechResult_def Let_def v_act_def v_call_def trim_nonempty
      split: option.splits sink.splits)

lemma d_last_result:
  "alternative data = Some alt \<Longrightarrow> trim (transcript alt) \<noteq> [] \<Longrightarrow>
     last (results (d_store (handleTranscriptResult now data s)))
       = d_result now (is_final data) alt s"
  by (auto simp: handleTranscriptResult_def Let_def d_act_def results_addResult
      updateMetrics_def trim_nonempty)

lemma d_started_simps:
  "d_started = \<lparr>connection = Some Handle,
     d_store = \<lparr>s_text = [], results = [], metrics = zero_metrics, s_isActive = True,
       connectionStatus = connected\<rparr>,
     d_mediaRecorder = None, d_stream = Some Handle, d_isActive = True,
     connectionStartTime = 900, d_audioActivityDetected = False, d_currentUtteranceStart = 0,
     d_chunkCounter = 0, d_audioChunkTimestamps = [], audioCursor = 0, sessionStartTime = 900,
     audioStreamStartTime = 900, d_effects = [ListenLive, CreateProcessor]\<rparr>"
  by (simp add: d_started_def d_startTranscription_def d_startAudioStreaming_def d_idle_def
      Let_def d_act_def d_call_def reset_def setActive_def setConnectionStatus_def
      initial_store_def)


lemma d_chunks_cursor:
  "audioCursor d_two_chunks = Num dbl_0_128" "audioCursor d_three_chunks = Num dbl_0_192"
  unfolding d_two_chunks_def d_three_chunks_def d_started_def cursor_run
  by (simp_all add: start_streaming length_buffers dbl_ev del: dbl_add.simps dbl_div.simps)

lemma Math_max_idem: "Math_max (Num 0) (Math_max (Num 0) x) = Math_max (Num 0) x"
  by (cases x) simp_all

lemma v_audio_seconds_streaming: "v_audio_seconds v_streaming = Num dbl_0_1"
  by (simp add: v_audio_seconds_def v_streaming_simps dbl_ev
      del: dbl_mul.simps dbl_div.simps)

lemma spec_latency_examples:
  "spec_latency (Num dbl_0_1) (Num dbl_0_02) (Num dbl_0_03) = Num 50"
  "spec_latency (Num dbl_0_1) (Num 5) (Num dbl_0_03) = Num 0"
  "spec_latency (Num dbl_0_128) (Num dbl_0_02) (Num dbl_0_03) = Num 78"
  "spec_latency (Num dbl_0_192) (Num dbl_0_02) (Num dbl_0_03) = Num dbl_142_00000000000003"
  by (simp_all add: spec_latency_def dbl_ev
      del: dbl_add.simps dbl_mul.simps dbl_div.simps Math_max.simps)

text \<open>
  C2, as the claim states it, fails in both services.
  \<open>VerbumService\<close> keeps no audio cursor and measures the time on the clock: a connected
  session has handed over five chunks of 20 ms (0.1 s of audio), the first at time 1000
  with speech; an interim event with offset 0.02 s and duration 0.03 s arrives at time
  1120. The stored latency is 120 ms, the time since the utterance started, while the
  claimed formula gives 50 ms; with the offset 5 s the stored latency is still 120 ms
  while the formula gives 0.
  \<open>DeepgramService\<close> looks for \<open>start\<close> and \<open>duration\<close> on the first alternative, while
  the type \<open>DeepgramResponse\<close> declares them on the event: after two buffers of 1024
  samples (cursor 0.128 s) an interim event of that type with \<open>start\<close> 0.02 s and
  \<open>duration\<close> 0.03 s gets the latency 0, while the claimed formula gives 78 ms.
\<close>

theorem interim_latency_counterexample:
  "e_status speech_interim = recognizing
   \<and> e_offset speech_interim = Some (Num dbl_0_02)
   \<and> e_duration speech_interim = Some (Num dbl_0_03)
   \<and> latency (last (v_results (snd (handleSpeechResult 1120 speech_interim v_streaming))))
       = Some (Num 120)
   \<and> v_audio_seconds v_streaming = Num dbl_0_1
   \<and> spec_latency (Num dbl_0_1) (Num dbl_0_02) (Num dbl_0_03) = Num 50
   \<and> latency (last (v_results (snd (handleSpeechResult 1120
         (speech_interim\<lparr>e_offset := Some (Num 5)\<rparr>) v_streaming)))) = Some (Num 120)
   \<and> spec_latency (Num dbl_0_1) (Num 5) (Num dbl_0_03) = Num 0
   \<and> \<not> is_final dg_interim
   \<and> ev_start dg_interim = Num dbl_0_02 \<and> ev_duration dg_interim = Num dbl_0_03
   \<and> audioCursor d_two_chunks = Num dbl_0_128
   \<and> latency (last (results (d_store (handleTranscriptResult 1120 dg_interim d_two_chunks))))
       = Some (Num 0)
   \<and> spec_latency (Num dbl_0_128) (Num dbl_0_02) (Num dbl_0_03) = Num 78"
proof -
  have v: "latency (last (v_results (snd (handleSpeechResult 1120 speech_interim v_streaming))))
       = Some (Num 120)"
    "latency (last (v_results (snd (handleSpeechResult 1120
         (speech_interim\<lparr>e_offset := Some (Num 5)\<rparr>) v_streaming)))) = Some (Num 120)"
    by (simp_all add: handleSpeechResult_def v_result_def v_calculatedLatency_def Let_def
        speech_interim_def v_streaming_simps v_act_def v_call_def trim_def isWhiteSpace_def)
  have d: "latency (last (results (d_store (handleTranscriptResult 1120 dg_interim
        d_two_chunks)))) = Some (Num 0)"
    by (simp add: d_last_result [where alt = "\<lparr>transcript = ''hello'',
          a_confidence = Some (Num dbl_0_9), a_start = None, a_duration = None\<rparr>"]
        dg_interim_def trim_def isWhiteSpace_def d_result_def d_calculatedLatency_def)
  show ?thesis
    using v d d_chunks_cursor v_audio_seconds_streaming spec_latency_examples
    by (simp add: speech_interim_def dg_interim_def)
qed

text \<open>What \<open>handleTranscriptResult\<close> computes when it finds \<open>start\<close> and \<open>duration\<close> on the
  first alternative of an interim event: every operation of the formula is rounded to a
  double. After three buffers of 1024 samples (cursor 0.192 s), 0.02 s and 0.03 s give
  142.00000000000003 ms, more than the formula gives for the doubles 0.192, 0.02 and
  0.03.\<close>

lemma handleTranscriptResult_alternative:
  "\<not> is_final data \<Longrightarrow> alternative data = Some alt \<Longrightarrow> trim (transcript alt) \<noteq> [] \<Longrightarrow>
   a_start alt = Some offsetSeconds \<Longrightarrow> a_duration alt = Some durationSeconds \<Longrightarrow>
     latency (last (results (d_store (handleTranscriptResult now data s))))
       = Some (spec_latency (audioCursor s) offsetSeconds durationSeconds)"
  by (simp add: d_last_result d_result_def d_calculatedLatency_def spec_latency_def Let_def
      Math_max_idem del: dbl_add.simps dbl_mul.simps Math_max.simps)

lemma handleTranscriptResult_alternative_example:
  "latency (last (results (d_store (handleTranscriptResult 1200 dg_interim_alt
      d_three_chunks)))) = Some (Num dbl_142_00000000000003)
   \<and> max 0 ((dbl_0_192 - (dbl_0_02 + dbl_0_03)) * 1000) < dbl_142_00000000000003"
proof -
  have "max 0 ((dbl_0_192 - (dbl_0_02 + dbl_0_03)) * 1000) < dbl_142_00000000000003"
    by (simp add: dbl_0_192_def dbl_0_02_def dbl_0_03_def dbl_142_00000000000003_def)
  then show ?thesis
    using handleTranscriptResult_alternative [where data = dg_interim_alt and now = 1200
      and s = d_three_chunks
      and alt = "\<lparr>transcript = ''hello'', a_confidence = Some (Num dbl_0_9),
        a_start = Some (Num dbl_0_02), a_duration = Some (Num dbl_0_03)\<rparr>"
      and offsetSeconds = "Num dbl_0_02" and durationSeconds = "Num dbl_0_03"]
    by (simp add: dg_interim_alt_def trim_def isWhiteSpace_def d_chunks_cursor
        spec_latency_examples)
qed

text \<open>
  C2, amended. \<open>VerbumService\<close> keeps no audio cursor and does not read the offset and
  the duration of an event. For every event whose text is not blank, interim or final, it
  stores the time on the clock since the utterance started when an utterance start is
  recorded, otherwise the time since the most recent chunk of the last 3000 ms when there
  is one, otherwise 0, and never less than 0; the stored latency is the same whatever offset
  and duration the event carries.
\<close>

theorem interim_latency:
  "trim (e_text ev) \<noteq> []
     \<longrightarrow> latency (last (v_results (snd (handleSpeechResult now ev v))))
          = Some (Num (of_int (max 0
              (if 0 < v_currentUtteranceStart v then now - v_currentUtteranceStart v
               else if recent_chunks now v = {} then 0
               else now - Max (recent_chunks now v)))))
        \<and> latency (last (v_results (snd (handleSpeechResult now
              (ev\<lparr>e_offset := off, e_duration := dur\<rparr>) v))))
          = latency (last (v_results (snd (handleSpeechResult now ev v))))"
proof -
  have v: "latency (v_result now e v) = Some (Num (of_int (max 0
              (if 0 < v_currentUtteranceStart v then now - v_currentUtteranceStart v
               else if recent_chunks now v = {} then 0
               else now - Max (recent_chunks now v)))))" for e
    unfolding v_result_def v_calculatedLatency_eq by simp
  show ?thesis
    by (auto simp: v_last_result v)
qed

theorem interim_latency_witness:
  "trim (e_text speech_interim) \<noteq> []
   \<and> e_status speech_interim = recognizing
   \<and> v_currentUtteranceStart v_streaming = 1000
   \<and> latency (last (v_results (snd (handleSpeechResult 1120 speech_interim v_streaming))))
       = Some (Num 120)
   \<and> latency (last (v_results (snd (handleSpeechResult 1120
         (speech_interim\<lparr>e_offset := None, e_duration := None\<rparr>) v_streaming))))
       = Some (Num 120)"
  using interim_latency [where now = 1120 and ev = speech_interim and v = v_streaming
      and off = None and dur = None]
  by (simp add: speech_interim_def trim_def isWhiteSpace_def v_streaming_simps)

lemma web_loop_results:
  "v_results (web_loop clock k i (drop i xs) s)
     = v_results s @ map (\<lambda>j. web_result (clock j) (xs ! j)) [i..<length xs]"
proof (induction "length xs - i" arbitrary: i s)
  case 0
  then show ?case by simp
next
  case (Suc n)
  then have i: "i < length xs" and n: "n = length xs - Suc i" by simp_all
  have d: "drop i xs = xs ! i # drop (Suc i) xs"
    using i by (simp add: Cons_nth_drop_Suc)
  have u: "[i..<length xs] = i # [Suc i..<length xs]"
    using i by (simp add: upt_conv_Cons)
  show ?case
    unfolding d u
    by (simp add: Let_def Suc.hyps(1) [OF n] v_act_def v_call_def split: sink.splits)
qed

text \<open>
  C3, as the claim states it, fails: a final event that arrives when the utterance start
  is 0 (and, for Verbum, no chunk timestamp is stored) gets the latency 0, not an unset
  latency, in both services.
\<close>

theorem final_latency_counterexample:
  "is_final dg_final \<and> d_currentUtteranceStart d_started = 0
   \<and> latency (last (results (d_store (handleTranscriptResult 2000 dg_final d_started))))
       = Some (Num 0)
   \<and> latency (last (results (d_store (handleTranscriptResult 2000 dg_final d_started))))
       \<noteq> None
   \<and> e_status speech_final = recognized \<and> v_currentUtteranceStart v_connected = 0
   \<and> v_audioChunkTimestamps v_connected = []
   \<and> latency (last (v_results (snd (handleSpeechResult 2000 speech_final v_connected))))
       = Some (Num 0)
   \<and> latency (last (v_results (snd (handleSpeechResult 2000 speech_final v_connected))))
       \<noteq> None"
  by (simp add: d_last_result v_last_result dg_final_def speech_final_def trim_def
      isWhiteSpace_def d_result_def v_result_def d_calculatedLatency_def
      v_calculatedLatency_def d_started_simps v_connected_def v_on_connect_def
      v_startTranscription_def v_idle_def v_act_def v_call_def Let_def)

text \<open>
  C3, amended. For every final event with a text that is not blank that
  \<open>handleTranscriptResult\<close> of \<open>DeepgramService\<close> or \<open>handleSpeechResult\<close> of \<open>VerbumService\<close>
  handles, whatever offset and duration it carries, if the utterance start is 0 (and, in
  \<open>VerbumService\<close>, no chunk timestamp of the last 3000 ms is stored), the latency field of
  the result is set to 0. The latency field is left unset in the results of the Web Speech
  fallback of \<open>VerbumService\<close>: for an event of the fallback, the listener appends one
  result for each recognition result from \<open>resultIndex\<close> on, final or not as that one is,
  with no latency.
\<close>

theorem final_latency_zero:
  "(is_final data \<and> alternative data = Some alt \<and> trim (transcript alt) \<noteq> []
      \<and> d_currentUtteranceStart s \<le> 0
     \<longrightarrow> latency (last (results (d_store (handleTranscriptResult now data s))))
          = Some (Num 0))
   \<and> (e_status ev = recognized \<and> trim (e_text ev) \<noteq> []
      \<and> v_currentUtteranceStart v \<le> 0 \<and> recent_chunks now v = {}
     \<longrightarrow> latency (last (v_results (snd (handleSpeechResult now ev v)))) = Some (Num 0))
   \<and> v_results (web_onresult clock k wev v)
       = v_results v @ map (\<lambda>i. web_result (clock i) (w_results wev ! i))
                         [resultIndex wev..<length (w_results wev)]
   \<and> latency (web_result t r) = None
   \<and> isFinal (web_result t r) = w_isFinal r"
  by (simp add: d_last_result v_last_result d_result_def v_result_def d_calculatedLatency_def
      v_calculatedLatency_eq web_onresult_def web_loop_results web_result_def)

theorem final_latency_zero_witness:
  "is_final dg_final
   \<and> alternative dg_final = Some \<lparr>transcript = ''hello world'',
        a_confidence = Some (Num dbl_0_97), a_start = None, a_duration = None\<rparr>
   \<and> trim ''hello world'' \<noteq> [] \<and> d_currentUtteranceStart d_started \<le> 0
   \<and> latency (last (results (d_store (handleTranscriptResult 2000 dg_final d_started))))
       = Some (Num 0)
   \<and> e_status speech_final = recognized \<and> trim (e_text speech_final) \<noteq> []
   \<and> v_currentUtteranceStart v_connected \<le> 0 \<and> recent_chunks 2000 v_connected = {}
   \<and> latency (last (v_results (snd (handleSpeechResult 2000 speech_final v_connected))))
       = Some (Num 0)
   \<and> v_results v_fallback = []
   \<and> map isFinal (v_results (web_onresult (\<lambda>i. 2000) StoreAddResult web_event v_fallback))
       = [True]
   \<and> map latency (v_results (web_onresult (\<lambda>i. 2000) StoreAddResult web_event v_fallback))
       = [None]"
  using final_latency_zero [where data = dg_final and now = 2000 and s = d_started
      and alt = "\<lparr>transcript = ''hello world'', a_confidence = Some (Num dbl_0_97),
        a_start = None, a_duration = None\<rparr>"
      and ev = speech_final and v = v_connected]
    final_latency_zero [where clock = "\<lambda>i. 2000" and k = StoreAddResult and wev = web_event
      and v = v_fallback and t = 2000
      and r = "\<lparr>w_transcript = ''hello world'', w_confidence = Num 0, w_isFinal = True\<rparr>"]
  by (simp add: dg_final_def speech_final_def trim_def isWhiteSpace_def d_started_simps
      recent_chunks_def v_connected_def v_on_connect_def v_startTranscription_def v_idle_def
      v_act_def v_call_def Let_def web_event_def v_fallback_def v_catch_def)

section \<open>Starting twice\<close>

lemma ws_letters: "\<not> isWhiteSpace CHR ''h''" "\<not> isWhiteSpace CHR ''d''"
  by (simp_all add: isWhiteSpace_def)

lemma d_with_result_store:
  "results (d_store d_with_result) =
     [\<lparr>rtext = ''hello world'', timestamp = 2000, confidence = Some (Num dbl_0_97),
       isFinal = True, latency = Some (Num 0)\<rparr>]
   \<and> d_isActive d_with_result \<and> connection d_with_result = Some Handle
   \<and> d_stream d_with_result = Some Handle \<and> d_mediaRecorder d_with_result = None
   \<and> d_effects d_with_result = [ListenLive, CreateProcessor]"
  by (simp add: d_with_result_def handleTranscriptResult_def dg_final_def d_started_simps
      Let_def d_act_def d_result_def d_calculatedLatency_def d_confidence_def trim_def ws_letters
      results_addResult updateMetrics_def dbl_nz)

text \<open>
  C1, as the claim states it, fails for \<open>DeepgramService\<close>: a running session holds one
  final result; calling \<open>startTranscription\<close> again empties the results of the store, stops
  the tracks, finishes the connection and opens another one.
\<close>

theorem restart_counterexample:
  "d_isActive d_with_result
   \<and> results (d_store d_with_result) \<noteq> []
   \<and> results (d_store (snd (d_startTranscription 3000 Handle False False d_with_result))) = []
   \<and> d_effects d_with_result = [ListenLive, CreateProcessor]
   \<and> d_effects (snd (d_startTranscription 3000 Handle False False d_with_result))
       = [ListenLive, CreateProcessor, TrackStop, ConnectionFinish, ListenLive, CreateProcessor]
   \<and> snd (d_startTranscription 3000 Handle False False d_with_result) \<noteq> d_with_result"
proof -
  let ?s = "snd (d_startTranscription 3000 Handle False False d_with_result)"
  have r: "results (d_store ?s) = []"
    and e: "d_effects ?s
       = [ListenLive, CreateProcessor, TrackStop, ConnectionFinish, ListenLive, CreateProcessor]"
    using d_with_result_store
    by (simp_all add: d_startTranscription_def d_startAudioStreaming_def d_stopTranscription_def
        Let_def d_act_def d_call_def reset_def setActive_def setConnectionStatus_def
        updateMetrics_def)
  have "?s \<noteq> d_with_result"
    using r d_with_result_store by auto
  then show ?thesis
    using r e d_with_result_store by simp
qed


lemma d_stop_inactive: "\<not> d_isActive (d_stopTranscription d)"
  by (simp add: d_stopTranscription_def Let_def d_act_def d_call_def
      split: option.splits)

lemma d_start_fresh:
  "\<not> d_isActive d \<Longrightarrow> \<not> live_fails \<Longrightarrow> \<not> audio_fails \<Longrightarrow>
     d_startTranscription now ms live_fails audio_fails d
       = (None, (d_call CreateProcessor (d_call ListenLive d))
           \<lparr>connection := Some Handle, d_store := initial_store\<lparr>s_isActive := True,
               connectionStatus := connected\<rparr>,
             d_stream := Some ms, d_isActive := True, connectionStartTime := now,
             d_audioActivityDetected := False, d_currentUtteranceStart := 0,
             d_chunkCounter := 0, d_audioChunkTimestamps := [], audioCursor := 0,
             sessionStartTime := now, audioStreamStartTime := now\<rparr>)"
  by (simp add: d_startTranscription_def d_startAudioStreaming_def Let_def d_act_def d_call_def
      reset_def setActive_def setConnectionStatus_def initial_store_def)

lemma d_stop_effects:
  "d_isActive d \<Longrightarrow>
     d_effects (d_stopTranscription d) = d_effects d
       @ (case d_mediaRecorder d of Some st \<Rightarrow> if st \<noteq> inactive then [RecorderStop] else []
          | None \<Rightarrow> [])
       @ (case d_stream d of Some h \<Rightarrow> [TrackStop] | None \<Rightarrow> [])
       @ (case connection d of Some c \<Rightarrow> [ConnectionFinish] | None \<Rightarrow> [])"
  by (simp add: d_stopTranscription_def Let_def d_act_def d_call_def split: option.splits)

lemma v_busy_step:
  "v_isActive s \<or> v_isConnecting s \<Longrightarrow>
     (v_isActive (v_event_step e s) \<or> v_isConnecting (v_event_step e s))
     \<and> v_effects (v_event_step e s) = v_effects s"
  by (cases e) (auto simp: v_startTranscription_def v_on_connect_def v_act_def)

lemma v_busy_run:
  "v_isActive s \<or> v_isConnecting s \<Longrightarrow> v_effects (fold v_event_step evs s) = v_effects s"
proof (induction evs arbitrary: s)
  case Nil
  then show ?case by simp
next
  case (Cons e evs)
  from v_busy_step [OF Cons.prems, of e] Cons.IH [of "v_event_step e s"]
  show ?case by simp
qed

text \<open>
  C1, amended. \<open>VerbumService.startTranscription\<close>, called while the service is active or
  connecting, changes nothing and opens no socket; called at rest it opens one socket, and
  no further call of it and no \<open>connect\<close> event after that opens another.
  \<open>DeepgramService.startTranscription\<close>, called while the service is active, does what it
  does after \<open>stopTranscription\<close>: the running session is stopped, and when the start
  succeeds the store is reset (no results, no text, zero metrics), the audio cursor is 0 and
  one connection has been opened after the calls of the stop; when the running session held
  a connection, as many connections are open after the call as before it.
\<close>

theorem duplicate_start:
  "(v_isActive v \<or> v_isConnecting v \<longrightarrow> v_startTranscription now callback_given v = v)
   \<and> (\<not> v_isActive v \<and> \<not> v_isConnecting v \<longrightarrow>
        v_effects (fold v_event_step evs (v_startTranscription now callback_given v))
          = v_effects v @ [SocketOpen])
   \<and> (d_isActive d \<longrightarrow>
        d_startTranscription now ms live_fails audio_fails d
          = d_startTranscription now ms live_fails audio_fails (d_stopTranscription d))
   \<and> (d_isActive d \<longrightarrow>
        results (d_store (snd (d_startTranscription now ms False False d))) = []
        \<and> s_text (d_store (snd (d_startTranscription now ms False False d))) = []
        \<and> metrics (d_store (snd (d_startTranscription now ms False False d))) = zero_metrics
        \<and> audioCursor (snd (d_startTranscription now ms False False d)) = 0
        \<and> connection (snd (d_startTranscription now ms False False d)) = Some Handle
        \<and> d_effects (snd (d_startTranscription now ms False False d))
            = d_effects (d_stopTranscription d) @ [ListenLive, CreateProcessor])
   \<and> (d_isActive d \<and> connection d \<noteq> None \<longrightarrow>
        open_connections (d_effects (snd (d_startTranscription now ms False False d)))
          = open_connections (d_effects d))"
proof -
  have v1: "v_isActive v \<or> v_isConnecting v \<longrightarrow> v_startTranscription now callback_given v = v"
    by (simp add: v_startTranscription_def)
  have v2: "\<not> v_isActive v \<and> \<not> v_isConnecting v \<longrightarrow>
        v_effects (fold v_event_step evs (v_startTranscription now callback_given v))
          = v_effects v @ [SocketOpen]"
    by (simp add: v_busy_run v_startTranscription_def Let_def v_act_def v_call_def)
  have d1: "d_startTranscription now ms live_fails audio_fails d
          = d_startTranscription now ms live_fails audio_fails (d_stopTranscription d)"
    if "d_isActive d"
    using that d_stop_inactive [of d] by (simp add: d_startTranscription_def Let_def)
  have d2: "d_startTranscription now ms False False d
      = d_startTranscription now ms False False (d_stopTranscription d)" if "d_isActive d"
    using that d_stop_inactive [of d] by (simp add: d_startTranscription_def Let_def)
  note fresh = d_start_fresh [OF d_stop_inactive [of d], of False False now ms, simplified]
  have d3: "results (d_store (snd (d_startTranscription now ms False False d))) = []
        \<and> s_text (d_store (snd (d_startTranscription now ms False False d))) = []
        \<and> metrics (d_store (snd (d_startTranscription now ms False False d))) = zero_metrics
        \<and> audioCursor (snd (d_startTranscription now ms False False d)) = 0
        \<and> connection (snd (d_startTranscription now ms False False d)) = Some Handle
        \<and> d_effects (snd (d_startTranscription now ms False False d))
            = d_effects (d_stopTranscription d) @ [ListenLive, CreateProcessor]"
    if "d_isActive d"
    unfolding d2 [OF that] fresh by (simp add: d_call_def initial_store_def)
  have d4: "open_connections (d_effects (snd (d_startTranscription now ms False False d)))
          = open_connections (d_effects d)" if "d_isActive d" "connection d \<noteq> None"
    using d3 [OF that(1)] that
    by (auto simp: open_connections_def d_stop_effects split: option.splits)
  show ?thesis
    using v1 v2 d1 d3 d4 by blast
qed


theorem duplicate_start_witness:
  "(v_isActive v_connected \<or> v_isConnecting v_connected)
   \<and> v_startTranscription 3000 False v_connected = v_connected
   \<and> \<not> v_isActive v_idle \<and> \<not> v_isConnecting v_idle
   \<and> v_effects (fold v_event_step [StartCall 3001 False, ConnectEvent, StartCall 3050 True]
         (v_startTranscription 3000 False v_idle)) = [SocketOpen]
   \<and> d_isActive d_with_result \<and> connection d_with_result \<noteq> None
   \<and> results (d_store (snd (d_startTranscription 3000 Handle False False d_with_result))) = []
   \<and> open_connections (d_effects d_with_result) = 1
   \<and> open_connections
        (d_effects (snd (d_startTranscription 3000 Handle False False d_with_result))) = 1"
proof -
  have act: "d_isActive d_with_result" "connection d_with_result \<noteq> None"
    using d_with_result_store by simp_all
  have oc: "open_connections (d_effects d_with_result) = 1"
    using d_with_result_store by (simp add: open_connections_def)
  have vc: "v_isActive v_connected \<or> v_isConnecting v_connected"
    by (simp add: v_connected_def v_on_connect_def v_act_def)
  have vi: "\<not> v_isActive v_idle \<and> \<not> v_isConnecting v_idle" "v_effects v_idle = []"
    by (simp_all add: v_idle_def)
  note a = duplicate_start [where v = v_connected and now = 3000 and callback_given = False
      and d = d_with_result and ms = Handle and live_fails = False and audio_fails = False]
  note b = duplicate_start [where v = v_idle and now = 3000 and callback_given = False
      and evs = "[StartCall 3001 False, ConnectEvent, StartCall 3050 True]"
      and d = d_with_result and ms = Handle and live_fails = False and audio_fails = False]
  from a vc have 1: "v_startTranscription 3000 False v_connected = v_connected" by blast
  from b vi
  have 2: "v_effects (fold v_event_step [StartCall 3001 False, ConnectEvent, StartCall 3050 True]
      (v_startTranscription 3000 False v_idle)) = [SocketOpen]"
    by simp
  from a act
  have 3: "results (d_store (snd (d_startTranscription 3000 Handle False False d_with_result)))
      = []"
    and 4: "open_connections
        (d_effects (snd (d_startTranscription 3000 Handle False False d_with_result)))
      = open_connections (d_effects d_with_result)"
    by blast+
  show ?thesis
    using vc vi act oc 1 2 3 4 by simp
qed


section \<open>Stopping twice\<close>

lemma v_stop_fields:
  "socket (v_stopTranscription v) = None
   \<and> v_stream (v_stopTranscription v) = None
   \<and> \<not> v_isActive (v_stopTranscription v) \<and> \<not> v_isConnecting (v_stopTranscription v)
   \<and> v_mediaRecorder (v_stopTranscription v)
       = (if v_mediaRecorder v = Some inactive then Some inactive else None)
   \<and> v_results (v_stopTranscription v) = v_results v
   \<and> connectionStatus (v_store (v_stopTranscription v)) = disconnected
   \<and> \<not> s_isActive (v_store (v_stopTranscription v))
   \<and> metrics (v_store (v_stopTranscription v))
       = (if v_results v = [] then metrics (v_store v) else calculateMetrics (v_results v))
   \<and> v_effects (v_stopTranscription v) = v_effects v
       @ (if socket v = Some True then [SocketEmitStreamEnd] else [])
       @ (case v_mediaRecorder v of Some st \<Rightarrow> if st \<noteq> inactive then [RecorderStop] else []
          | None \<Rightarrow> [])
       @ (case v_stream v of Some h \<Rightarrow> [TrackStop] | None \<Rightarrow> [])
       @ (case socket v of Some c \<Rightarrow> [SocketDisconnect] | None \<Rightarrow> [])"
  by (simp add: v_stopTranscription_def Let_def v_act_def v_call_def updateMetrics_def
      setActive_def setConnectionStatus_def spread_full_payload split: option.splits)

lemma v_stop_idem: "v_stopTranscription (v_stopTranscription v) = v_stopTranscription v"
proof -
  let ?w = "v_stopTranscription v"
  have f: "socket ?w = None" "v_stream ?w = None" "\<not> v_isActive ?w" "\<not> v_isConnecting ?w"
    "v_mediaRecorder ?w = None \<or> v_mediaRecorder ?w = Some inactive"
    "connectionStatus (v_store ?w) = disconnected" "\<not> s_isActive (v_store ?w)"
    "v_results ?w \<noteq> [] \<longrightarrow> metrics (v_store ?w) = calculateMetrics (v_results ?w)"
    using v_stop_fields [of v] by auto
  show ?thesis
    using f
    by (subst v_stopTranscription_def [of ?w])
      (auto simp: Let_def v_act_def v_call_def updateMetrics_def setActive_def
        setConnectionStatus_def spread_full_payload)
qed

lemma d_stop_idem: "d_stopTranscription (d_stopTranscription d) = d_stopTranscription d"
  using d_stop_inactive [of d] by (subst d_stopTranscription_def) simp

lemma d_stop_fields:
  "d_isActive d \<Longrightarrow>
   connection (d_stopTranscription d) = None
   \<and> d_stream (d_stopTranscription d) = None
   \<and> \<not> d_isActive (d_stopTranscription d)
   \<and> connectionStatus (d_store (d_stopTranscription d)) = disconnected
   \<and> \<not> s_isActive (d_store (d_stopTranscription d))
   \<and> metrics (d_store (d_stopTranscription d))
       = (if results (d_store d) = [] then metrics (d_store d)
          else calculateMetrics (results (d_store d)))"
  by (simp add: d_stopTranscription_def Let_def d_act_def d_call_def updateMetrics_def
      setActive_def setConnectionStatus_def spread_full_payload split: option.splits)

lemma v_with_result_simps:
  "v_results v_with_result = [\<lparr>rtext = ''hello world'', timestamp = 2000,
      confidence = Some (Num dbl_0_9), isFinal = True, latency = Some (Num 1000)\<rparr>]
   \<and> socket v_with_result = Some True \<and> v_stream v_with_result = Some Handle
   \<and> v_mediaRecorder v_with_result = Some recording
   \<and> v_effects v_with_result = v_effects v_streaming"
  by (simp add: v_with_result_def handleSpeechResult_def speech_final_def v_streaming_simps
      Let_def v_act_def v_call_def v_result_def v_calculatedLatency_def v_confidence_def
      trim_def ws_letters)

text \<open>
  C7, as the claim states it, fails for \<open>DeepgramService\<close>, whose \<open>stopTranscription\<close>
  returns at once when the service is not active. After a start that failed when the audio
  context was created, the service is not active but holds the connection it opened and the
  stream: one call or two calls of \<open>stopTranscription\<close> leave the connection unfinished,
  the tracks running and the connection status \<open>error\<close>. After the server has closed a
  session, they leave the tracks running.
\<close>

theorem stop_counterexample:
  "\<not> d_isActive d_failed
   \<and> d_effects d_failed = [ListenLive]
   \<and> d_stopTranscription d_failed = d_failed
   \<and> connection (d_stopTranscription (d_stopTranscription d_failed)) = Some Handle
   \<and> d_stream (d_stopTranscription (d_stopTranscription d_failed)) = Some Handle
   \<and> connectionStatus (d_store (d_stopTranscription (d_stopTranscription d_failed))) = error
   \<and> connectionStatus (d_store (d_stopTranscription (d_stopTranscription d_failed)))
       \<noteq> disconnected
   \<and> ConnectionFinish \<notin> set (d_effects (d_stopTranscription (d_stopTranscription d_failed)))
   \<and> TrackStop \<notin> set (d_effects (d_stopTranscription (d_stopTranscription d_failed)))
   \<and> \<not> d_isActive d_closed
   \<and> d_stopTranscription d_closed = d_closed
   \<and> d_stream (d_stopTranscription (d_stopTranscription d_closed)) = Some Handle
   \<and> TrackStop \<notin> set (d_effects (d_stopTranscription (d_stopTranscription d_closed)))"
proof -
  have f: "d_failed = \<lparr>connection = Some Handle,
     d_store = \<lparr>s_text = [], results = [], metrics = zero_metrics, s_isActive = False,
       connectionStatus = error\<rparr>,
     d_mediaRecorder = None, d_stream = Some Handle, d_isActive = False,
     connectionStartTime = 900, d_audioActivityDetected = False, d_currentUtteranceStart = 0,
     d_chunkCounter = 0, d_audioChunkTimestamps = [], audioCursor = 0, sessionStartTime = 900,
     audioStreamStartTime = 900, d_effects = [ListenLive]\<rparr>"
    by (simp add: d_failed_def d_startTranscription_def d_startAudioStreaming_def d_catch_def
        d_idle_def Let_def d_act_def d_call_def reset_def setActive_def setConnectionStatus_def
        initial_store_def)
  have c: "d_closed = d_started\<lparr>d_isActive := False,
      d_store := \<lparr>s_text = [], results = [], metrics = zero_metrics, s_isActive = False,
        connectionStatus = disconnected\<rparr>\<rparr>"
    by (simp add: d_closed_def d_on_close_def d_started_simps d_act_def setActive_def
        setConnectionStatus_def)
  have sf: "d_stopTranscription d_failed = d_failed"
    by (simp add: d_stopTranscription_def f)
  have sc: "d_stopTranscription d_closed = d_closed"
    by (simp add: d_stopTranscription_def c)
  show ?thesis
    unfolding sf sc by (simp add: f c d_started_simps)
qed

text \<open>
  C7, amended. Calling \<open>stopTranscription\<close> twice in a row, from any state, gives the state
  that one call gives, in both services, and the second call makes no call on the socket,
  the connection, the recorder or the tracks. \<open>VerbumService.stopTranscription\<close>, from any
  state, signals the end of the stream on a connected socket, stops the recorder that is
  not inactive, stops the tracks of the stream it holds and disconnects the socket it
  holds, in this order and each once; after it the service holds no socket and no stream,
  it is neither active nor connecting, the store says \<open>disconnected\<close> and not active, and
  the metrics of the store are those of the results of the service when it has any.
  \<open>DeepgramService.stopTranscription\<close>, when the service is active, stops the recorder
  that is not inactive, stops the tracks of the stream it holds and finishes the connection
  it holds, in this order and each once, and reaches that state (no connection, no stream,
  not active, \<open>disconnected\<close>, the metrics of the results of the store when it has any);
  when the service is not active it changes nothing and makes no call.
\<close>

theorem stop_idempotent:
  "v_stopTranscription (v_stopTranscription v) = v_stopTranscription v
   \<and> d_stopTranscription (d_stopTranscription d) = d_stopTranscription d
   \<and> v_effects (v_stopTranscription (v_stopTranscription v)) = v_effects (v_stopTranscription v)
   \<and> d_effects (d_stopTranscription (d_stopTranscription d)) = d_effects (d_stopTranscription d)
   \<and> v_effects (v_stopTranscription v) = v_effects v
       @ (if socket v = Some True then [SocketEmitStreamEnd] else [])
       @ (case v_mediaRecorder v of Some st \<Rightarrow> if st \<noteq> inactive then [RecorderStop] else []
          | None \<Rightarrow> [])
       @ (case v_stream v of Some h \<Rightarrow> [TrackStop] | None \<Rightarrow> [])
       @ (case socket v of Some c \<Rightarrow> [SocketDisconnect] | None \<Rightarrow> [])
   \<and> socket (v_stopTranscription v) = None
   \<and> v_stream (v_stopTranscription v) = None
   \<and> \<not> v_isActive (v_stopTranscription v) \<and> \<not> v_isConnecting (v_stopTranscription v)
   \<and> connectionStatus (v_store (v_stopTranscription v)) = disconnected
   \<and> \<not> s_isActive (v_store (v_stopTranscription v))
   \<and> (v_results v \<noteq> [] \<longrightarrow>
        metrics (v_store (v_stopTranscription v)) = calculateMetrics (v_results v))
   \<and> (d_isActive d \<longrightarrow>
        d_effects (d_stopTranscription d) = d_effects d
          @ (case d_mediaRecorder d of
               Some st \<Rightarrow> if st \<noteq> inactive then [RecorderStop] else []
             | None \<Rightarrow> [])
          @ (case d_stream d of Some h \<Rightarrow> [TrackStop] | None \<Rightarrow> [])
          @ (case connection d of Some c \<Rightarrow> [ConnectionFinish] | None \<Rightarrow> []))
   \<and> (d_isActive d \<longrightarrow>
        connection (d_stopTranscription d) = None
        \<and> d_stream (d_stopTranscription d) = None
        \<and> \<not> d_isActive (d_stopTranscription d)
        \<and> connectionStatus (d_store (d_stopTranscription d)) = disconnected
        \<and> \<not> s_isActive (d_store (d_stopTranscription d)))
   \<and> (d_isActive d \<and> results (d_store d) \<noteq> [] \<longrightarrow>
        metrics (d_store (d_stopTranscription d)) = calculateMetrics (results (d_store d)))
   \<and> (\<not> d_isActive d \<longrightarrow> d_stopTranscription d = d)"
proof -
  have "\<not> d_isActive d \<longrightarrow> d_stopTranscription d = d"
    by (simp add: d_stopTranscription_def)
  then show ?thesis
    using v_stop_idem [of v] d_stop_idem [of d] v_stop_fields [of v] d_stop_fields [of d]
      d_stop_effects [of d]
    by simp
qed


theorem stop_idempotent_witness:
  "v_results v_with_result \<noteq> []
   \<and> v_effects (v_stopTranscription v_with_result)
       = v_effects v_streaming
           @ [SocketEmitStreamEnd, RecorderStop, TrackStop, SocketDisconnect]
   \<and> v_effects (v_stopTranscription (v_stopTranscription v_with_result))
       = v_effects v_streaming
           @ [SocketEmitStreamEnd, RecorderStop, TrackStop, SocketDisconnect]
   \<and> metrics (v_store (v_stopTranscription v_with_result))
       = calculateMetrics (v_results v_with_result)
   \<and> d_isActive d_with_result \<and> results (d_store d_with_result) \<noteq> []
   \<and> connection (d_stopTranscription d_with_result) = None
   \<and> d_effects (d_stopTranscription d_with_result)
       = [ListenLive, CreateProcessor, TrackStop, ConnectionFinish]
   \<and> d_effects (d_stopTranscription (d_stopTranscription d_with_result))
       = [ListenLive, CreateProcessor, TrackStop, ConnectionFinish]
   \<and> \<not> d_isActive d_failed \<and> d_stopTranscription d_failed = d_failed"
  using stop_idempotent [of v_with_result d_with_result] stop_idempotent [of v_with_result d_failed]
    v_with_result_simps d_with_result_store
  by (simp add: d_failed_def d_startTranscription_def d_startAudioStreaming_def d_catch_def
      d_idle_def Let_def d_act_def d_call_def)

end
